theory Spec2Isabelle
  imports Complex_Main "HOL-Library.AList"
begin

section \<open>JavaScript values\<close>

text \<open>
  The server (\<^verbatim>\<open>server.js\<close>) and the wizard (\<^verbatim>\<open>MpesaPayment.tsx\<close>) work on JSON
  payloads. A string is the list of its code units, a \<^typ>\<open>char\<close> standing for a code
  unit below 256, so that \<^const>\<open>length\<close> is the \<^verbatim>\<open>.length\<close> of the source. A number is
  a double: not-a-number, an infinity, or the rational it denotes (the two zeros are not
  told apart, no expression of the program distinguishes them).
\<close>

datatype jsnum = NaN | PosInf | NegInf | Fin rat

datatype jsval =
    Undefined
  | Null
  | Bool bool
  | Num jsnum
  | Str string
  | Arr "jsval list"
  | Obj "(string \<times> jsval) list"

text \<open>
  What is thrown in the program: a \<^verbatim>\<open>TypeError\<close> of the engine, the \<^verbatim>\<open>SyntaxError\<close> of
  the body parser, the \<^verbatim>\<open>RangeError\<close> of an exhausted stack, the
  \<^verbatim>\<open>Error('Failed to get access token')\<close> of \<^verbatim>\<open>getAccessToken\<close>, or the rejection of
  an axios call, which carries \<^verbatim>\<open>error.response.data\<close> when the gateway answered.
\<close>

datatype exn = TypeError | SyntaxError | RangeError | AccessTokenError | AxiosError "jsval option"

subsection \<open>Strings\<close>

definition isDigit :: "char \<Rightarrow> bool" where
  "isDigit c \<longleftrightarrow> c \<in> set ''0123456789''"

definition startsWith :: "string \<Rightarrow> string \<Rightarrow> bool" where
  "startsWith s p \<longleftrightarrow> take (length p) s = p"

text \<open>\<^verbatim>\<open>s.replace(/\D/g, '')\<close>: every code unit that is not a decimal digit is removed.\<close>

definition removeNonDigits :: "string \<Rightarrow> string" where
  "removeNonDigits s = filter isDigit s"

text \<open>\<^verbatim>\<open>/^254[0-9]{9}$/.test(s)\<close>; without the multiline flag \<^verbatim>\<open>$\<close> is the end of input.\<close>

definition canonicalPhone :: "string \<Rightarrow> bool" where
  "canonicalPhone s \<longleftrightarrow> length s = 12 \<and> take 3 s = ''254'' \<and> list_all isDigit (drop 3 s)"

subsection \<open>Numbers\<close>

text \<open>
  A decimal literal denotes a rational; the engine keeps the nearest double, ties to the
  even mantissa, and an infinity beyond the largest double. \<open>ilog2\<close> is the position of
  the leading bit, \<open>pow2\<close> a power of two with an integer exponent.
\<close>

function ilog2 :: "int \<Rightarrow> int" where
  "ilog2 n = (if n < 2 then 0 else 1 + ilog2 (n div 2))"
  by pat_completeness auto
termination
  by (relation "measure nat") auto

declare ilog2.simps [simp del]

definition pow2 :: "int \<Rightarrow> rat" where
  "pow2 e = (if 0 \<le> e then 2 ^ nat e else 1 / 2 ^ nat (- e))"

definition pow10 :: "int \<Rightarrow> rat" where
  "pow10 e = (if 0 \<le> e then 10 ^ nat e else 1 / 10 ^ nat (- e))"

definition roundHalfEven :: "rat \<Rightarrow> int" where
  "roundHalfEven m =
     (let f = \<lfloor>m\<rfloor>; r = m - of_int f
      in if r < 1 / 2 then f else if 1 / 2 < r then f + 1 else if even f then f else f + 1)"

text \<open>
  The double nearest to a positive rational: 53 bits of mantissa, the exponent of a
  normal number at least -1022 (below, the subnormal spacing \<open>2^-1074\<close>); \<open>None\<close> when
  the rounded value leaves the range.
\<close>

definition roundPositive :: "rat \<Rightarrow> rat option" where
  "roundPositive a =
     (let e = (if 1 \<le> a then ilog2 \<lfloor>a\<rfloor> else - (ilog2 (\<lceil>1 / a\<rceil> - 1) + 1));
          ulp = pow2 (max e (- 1022) - 52);
          v = of_int (roundHalfEven (a / ulp)) * ulp
      in if pow2 1024 \<le> v then None else Some v)"

definition toDouble :: "rat \<Rightarrow> jsnum" where
  "toDouble x =
     (if x = 0 then Fin 0
      else if 0 < x then (case roundPositive x of None \<Rightarrow> PosInf | Some v \<Rightarrow> Fin v)
      else (case roundPositive (- x) of None \<Rightarrow> NegInf | Some v \<Rightarrow> Fin (- v)))"

text \<open>\<^verbatim>\<open>a < b\<close> on numbers: false as soon as one side is not a number.\<close>

fun js_less :: "jsnum \<Rightarrow> jsnum \<Rightarrow> bool" where
  "js_less NaN _ = False"
| "js_less _ NaN = False"
| "js_less PosInf _ = False"
| "js_less _ NegInf = False"
| "js_less NegInf _ = True"
| "js_less _ PosInf = True"
| "js_less (Fin a) (Fin b) = (a < b)"

text \<open>\<^verbatim>\<open>Math.round\<close>: the nearest integer, a tie going up.\<close>

fun Math_round :: "jsnum \<Rightarrow> jsnum" where
  "Math_round (Fin q) = Fin (of_int \<lfloor>q + 1 / 2\<rfloor>)"
| "Math_round n = n"

declare Math_round.simps [simp del]

subsection \<open>Numeric literals in strings\<close>

text \<open>The white space and line terminators of the language that are code units below 256.\<close>

definition isWhiteSpace :: "char \<Rightarrow> bool" where
  "isWhiteSpace c \<longleftrightarrow> of_char c \<in> {9, 10, 11, 12, 13, 32, 160 :: nat}"

definition trimStart :: "string \<Rightarrow> string" where
  "trimStart s = dropWhile isWhiteSpace s"

definition trim :: "string \<Rightarrow> string" where
  "trim s = rev (dropWhile isWhiteSpace (rev (dropWhile isWhiteSpace s)))"

definition digitValue :: "char \<Rightarrow> nat" where
  "digitValue c =
     (let n = of_char c
      in if 48 \<le> n \<and> n \<le> 57 then n - 48
         else if 97 \<le> n \<and> n \<le> 102 then n - 87
         else n - 55)"

definition digitsValue :: "nat \<Rightarrow> string \<Rightarrow> nat" where
  "digitsValue base ds = foldl (\<lambda>a c. base * a + digitValue c) 0 ds"

definition parseSign :: "string \<Rightarrow> bool \<times> string" where
  "parseSign s =
     (case s of
        [] \<Rightarrow> (False, s)
      | c # t \<Rightarrow> if c = CHR ''-'' then (True, t) else if c = CHR ''+'' then (False, t) else (False, s))"

text \<open>An exponent part is taken only when a digit follows the \<^verbatim>\<open>e\<close> and its sign.\<close>

definition parseExponent :: "string \<Rightarrow> int \<times> string" where
  "parseExponent s =
     (case s of
        [] \<Rightarrow> (0, s)
      | c # t \<Rightarrow>
          if c = CHR ''e'' \<or> c = CHR ''E'' then
            (let (neg, u) = parseSign t; ds = takeWhile isDigit u
             in if ds = [] then (0, s)
                else ((if neg then - int (digitsValue 10 ds) else int (digitsValue 10 ds)),
                      dropWhile isDigit u))
          else (0, s))"

text \<open>
  The longest unsigned decimal literal at the start of a string (digits, an optional
  fraction, an optional exponent; a digit on one side of the point at least): its
  mathematical value and what follows it.
\<close>

definition parseUnsignedDecimal :: "string \<Rightarrow> (rat \<times> string) option" where
  "parseUnsignedDecimal s =
     (let ip = takeWhile isDigit s;
          r1 = dropWhile isDigit s;
          (fp, r2) = (case r1 of
                        [] \<Rightarrow> ([], r1)
                      | c # t \<Rightarrow> if c = CHR ''.'' then (takeWhile isDigit t, dropWhile isDigit t)
                                else ([], r1))
      in if ip = [] \<and> fp = [] then None
         else (let (e, r3) = parseExponent r2
               in Some (of_nat (digitsValue 10 (ip @ fp)) * pow10 (e - int (length fp)), r3)))"

definition parseStrDecimalLiteral :: "string \<Rightarrow> (jsnum \<times> string) option" where
  "parseStrDecimalLiteral s =
     (let (neg, t) = parseSign s
      in if startsWith t ''Infinity'' then Some (if neg then NegInf else PosInf, drop 8 t)
         else (case parseUnsignedDecimal t of
                 None \<Rightarrow> None
               | Some (v, r) \<Rightarrow> Some (toDouble (if neg then - v else v), r)))"

text \<open>\<^verbatim>\<open>parseFloat\<close> on a string: the longest literal after the leading white space.\<close>

definition parseFloatStr :: "string \<Rightarrow> jsnum" where
  "parseFloatStr s =
     (case parseStrDecimalLiteral (trimStart s) of None \<Rightarrow> NaN | Some (v, _) \<Rightarrow> v)"

definition isRadixDigit :: "nat \<Rightarrow> char \<Rightarrow> bool" where
  "isRadixDigit base c \<longleftrightarrow>
     (isDigit c \<or> c \<in> set ''abcdef'' \<or> c \<in> set ''ABCDEF'') \<and> digitValue c < base"

definition parseNonDecimal :: "string \<Rightarrow> rat option" where
  "parseNonDecimal s =
     (case s of
        z # x # ds \<Rightarrow>
          (let base = (if x = CHR ''x'' \<or> x = CHR ''X'' then 16
                       else if x = CHR ''o'' \<or> x = CHR ''O'' then 8
                       else if x = CHR ''b'' \<or> x = CHR ''B'' then 2 else (0::nat))
           in if z = CHR ''0'' \<and> base \<noteq> 0 \<and> ds \<noteq> [] \<and> list_all (isRadixDigit base) ds
              then Some (of_nat (digitsValue base ds)) else None)
      | _ \<Rightarrow> None)"

text \<open>
  The conversion of a string to a number (\<^verbatim>\<open>Number(s)\<close>, as \<^verbatim>\<open>isNaN\<close> applies it):
  the whole trimmed string must be one literal; the empty string is zero.
\<close>

definition StringToNumber :: "string \<Rightarrow> jsnum" where
  "StringToNumber s =
     (let t = trim s
      in if t = [] then Fin 0
         else (case parseNonDecimal t of
                 Some v \<Rightarrow> toDouble v
               | None \<Rightarrow>
                   (case parseStrDecimalLiteral t of
                      Some (v, []) \<Rightarrow> v
                    | _ \<Rightarrow> NaN)))"

subsection \<open>Coercions and property access\<close>

fun truthy :: "jsval \<Rightarrow> bool" where
  "truthy Undefined = False"
| "truthy Null = False"
| "truthy (Bool b) = b"
| "truthy (Num NaN) = False"
| "truthy (Num (Fin q)) = (q \<noteq> 0)"
| "truthy (Num _) = True"
| "truthy (Str s) = (s \<noteq> [])"
| "truthy (Arr _) = True"
| "truthy (Obj _) = True"

definition nullish :: "jsval \<Rightarrow> bool" where
  "nullish v \<longleftrightarrow> v = Undefined \<or> v = Null"

text \<open>
  \<^verbatim>\<open>a === b\<close> between two values that come from different payloads: primitives are
  compared by value (not-a-number equals nothing), two objects or arrays are never the
  same object.
\<close>

fun strict_eq :: "jsval \<Rightarrow> jsval \<Rightarrow> bool" where
  "strict_eq Undefined Undefined = True"
| "strict_eq Null Null = True"
| "strict_eq (Bool a) (Bool b) = (a = b)"
| "strict_eq (Num a) (Num b) = (a \<noteq> NaN \<and> a = b)"
| "strict_eq (Str a) (Str b) = (a = b)"
| "strict_eq _ _ = False"

text \<open>
  \<^verbatim>\<open>v.k\<close>, for the keys the program reads (none of them is a member of a prototype):
  a \<^verbatim>\<open>TypeError\<close> on \<^verbatim>\<open>undefined\<close> and \<^verbatim>\<open>null\<close>, the own property of an object,
  the \<^verbatim>\<open>length\<close> of a string or an array, \<^verbatim>\<open>undefined\<close> otherwise.
\<close>

fun getProp :: "jsval \<Rightarrow> string \<Rightarrow> exn + jsval" where
  "getProp Undefined k = Inl TypeError"
| "getProp Null k = Inl TypeError"
| "getProp (Obj kvs) k = Inr (case map_of kvs k of Some v \<Rightarrow> v | None \<Rightarrow> Undefined)"
| "getProp (Str s) k = Inr (if k = ''length'' then Num (Fin (of_nat (length s))) else Undefined)"
| "getProp (Arr xs) k = Inr (if k = ''length'' then Num (Fin (of_nat (length xs))) else Undefined)"
| "getProp _ k = Inr Undefined"

text \<open>\<^verbatim>\<open>v?.k\<close>: \<^verbatim>\<open>undefined\<close> where \<^verbatim>\<open>v.k\<close> would throw.\<close>

definition getOptional :: "jsval \<Rightarrow> string \<Rightarrow> jsval" where
  "getOptional v k = (case getProp v k of Inl _ \<Rightarrow> Undefined | Inr x \<Rightarrow> x)"

text \<open>
  The conversion of a parsed JSON value to a string throws exactly when it meets an object
  with an own property \<^verbatim>\<open>toString\<close> (a JSON value is never callable); an array
  converts its elements, \<^verbatim>\<open>undefined\<close> and \<^verbatim>\<open>null\<close> apart, and joins them with commas.
\<close>

fun toStringThrows :: "jsval \<Rightarrow> bool" where
  "toStringThrows (Obj kvs) = (map_of kvs ''toString'' \<noteq> None)"
| "toStringThrows (Arr xs) = list_ex toStringThrows xs"
| "toStringThrows _ = False"

text \<open>
  \<^verbatim>\<open>Number(v)\<close> where the conversion does not throw. An object reads
  \<^verbatim>\<open>"[object Object]"\<close>; an array reads as its joined elements, so two elements or more
  (a comma) are not a number, and one element reads as that element's string. The string
  of a number converts back to that number.
\<close>

fun ToNumberV :: "jsval \<Rightarrow> jsnum" where
  "ToNumberV Undefined = NaN"
| "ToNumberV Null = Fin 0"
| "ToNumberV (Bool b) = Fin (if b then 1 else 0)"
| "ToNumberV (Num n) = n"
| "ToNumberV (Str s) = StringToNumber s"
| "ToNumberV (Obj kvs) = NaN"
| "ToNumberV (Arr []) = Fin 0"
| "ToNumberV (Arr [Undefined]) = Fin 0"
| "ToNumberV (Arr [Null]) = Fin 0"
| "ToNumberV (Arr [Bool b]) = NaN"
| "ToNumberV (Arr [x]) = ToNumberV x"
| "ToNumberV (Arr (x # y # zs)) = NaN"

definition ToNumber :: "jsval \<Rightarrow> exn + jsnum" where
  "ToNumber v = (if toStringThrows v then Inl TypeError else Inr (ToNumberV v))"

text \<open>
  \<^verbatim>\<open>parseFloat(v)\<close> where the conversion to a string does not throw: the literal at the
  start of the string of \<^verbatim>\<open>v\<close>. For an array that is the literal at the start of its
  first element's string (a comma ends a literal).
\<close>

fun parseFloatV :: "jsval \<Rightarrow> jsnum" where
  "parseFloatV (Num n) = n"
| "parseFloatV (Str s) = parseFloatStr s"
| "parseFloatV (Arr (x # xs)) = parseFloatV x"
| "parseFloatV _ = NaN"

definition parseFloat :: "jsval \<Rightarrow> exn + jsnum" where
  "parseFloat v = (if toStringThrows v then Inl TypeError else Inr (parseFloatV v))"

definition isNaN :: "jsval \<Rightarrow> exn + bool" where
  "isNaN v = (case ToNumber v of Inl e \<Rightarrow> Inl e | Inr n \<Rightarrow> Inr (n = NaN))"

text \<open>The decimal digits of an integer, as \<^verbatim>\<open>'TXN_' + Date.now()\<close> renders it.\<close>

fun digitsOf :: "nat \<Rightarrow> string" where
  "digitsOf n =
     (if n < 10 then [''0123456789'' ! n] else digitsOf (n div 10) @ [''0123456789'' ! (n mod 10)])"

declare digitsOf.simps [simp del]

text \<open>\<^verbatim>\<open>xs.join(sep)\<close> on a list of strings.\<close>

fun join :: "string \<Rightarrow> string list \<Rightarrow> string" where
  "join sep [] = []"
| "join sep [x] = x"
| "join sep (x # y # ys) = x @ sep @ join sep (y # ys)"

subsection \<open>Base64\<close>

text \<open>
  \<^verbatim>\<open>Buffer.from(s).toString('base64')\<close>: the UTF-8 bytes of the string, three bytes to
  four characters of the standard alphabet, padded with \<^verbatim>\<open>=\<close>.
\<close>

definition utf8 :: "string \<Rightarrow> nat list" where
  "utf8 s = concat (map (\<lambda>c. let n = of_char c
                             in if n < 128 then [n] else [192 + n div 64, 128 + n mod 64]) s)"

definition base64Alphabet :: string where
  "base64Alphabet = ''ABCDEFGHIJKLMNOPQRSTUVWXYZabcdefghijklmnopqrstuvwxyz0123456789+/''"

definition sextet :: "nat \<Rightarrow> char" where
  "sextet n = base64Alphabet ! (n mod 64)"

fun base64 :: "nat list \<Rightarrow> string" where
  "base64 [] = []"
| "base64 [a] = [sextet (a div 4), sextet (a mod 4 * 16), CHR ''='', CHR ''='']"
| "base64 [a, b] =
     [sextet (a div 4), sextet (a mod 4 * 16 + b div 16), sextet (b mod 16 * 4), CHR ''='']"
| "base64 (a # b # c # rest) =
     [sextet (a div 4), sextet (a mod 4 * 16 + b div 16),
      sextet (b mod 16 * 4 + c div 64), sextet (c mod 64)] @ base64 rest"

definition toBase64 :: "string \<Rightarrow> string" where
  "toBase64 s = base64 (utf8 s)"

text \<open>
  Base64 in the words of its standard, to compare with: the bytes are laid out as bits,
  most significant first; the bits are cut into groups of six, the last group filled with
  zero bits on the right; each group is the index of a character of the alphabet; the
  result is padded with \<^verbatim>\<open>=\<close> to a multiple of four characters.
\<close>

definition bitsOf :: "nat \<Rightarrow> nat \<Rightarrow> bool list" where
  "bitsOf k n = map (\<lambda>i. odd (n div 2 ^ i)) (rev [0..<k])"

definition fromBits :: "bool list \<Rightarrow> nat" where
  "fromBits bs = foldl (\<lambda>a b. 2 * a + (if b then 1 else 0)) 0 bs"

function groups6 :: "bool list \<Rightarrow> bool list list" where
  "groups6 bs = (if bs = [] then [] else take 6 (bs @ replicate 5 False) # groups6 (drop 6 bs))"
  by pat_completeness auto
termination
  by (relation "measure length") auto

declare groups6.simps [simp del]

definition rfc4648_base64 :: "nat list \<Rightarrow> string" where
  "rfc4648_base64 bytes =
     (let cs = map (\<lambda>g. base64Alphabet ! fromBits g) (groups6 (concat (map (bitsOf 8) bytes)))
      in cs @ replicate ((4 - length cs mod 4) mod 4) CHR ''='')"

text \<open>The characters of the standard before the padding.\<close>

definition standardChars :: "nat list \<Rightarrow> string" where
  "standardChars bytes =
     map (\<lambda>g. base64Alphabet ! fromBits g) (groups6 (concat (map (bitsOf 8) bytes)))"

section \<open>Utility functions of the server\<close>

text \<open>
  \<^verbatim>\<open>formatPhoneNumber(phone)\<close> on a string: strip the non-digits, replace a leading 0 by
  254, prepend 254 when it is not there.
\<close>

definition formatPhoneNumber :: "string \<Rightarrow> string" where
  "formatPhoneNumber phone0 =
     (let phone1 = removeNonDigits phone0;
          phone2 = (if startsWith phone1 ''0'' then ''254'' @ drop 1 phone1 else phone1);
          phone3 = (if \<not> startsWith phone2 ''254'' then ''254'' @ phone2 else phone2)
      in phone3)"

text \<open>The function is applied to whatever the request holds: only a string has \<^verbatim>\<open>replace\<close>.\<close>

definition formatPhoneNumberOf :: "jsval \<Rightarrow> exn + string" where
  "formatPhoneNumberOf phone =
     (case phone of Str s \<Rightarrow> Inr (formatPhoneNumber s) | _ \<Rightarrow> Inl TypeError)"

text \<open>
  \<^verbatim>\<open>generateTransactionId()\<close>, from the clock and the random suffix
  \<^verbatim>\<open>Math.random().toString(36).substr(2, 9)\<close>.
\<close>

definition generateTransactionId :: "nat \<Rightarrow> string \<Rightarrow> string" where
  "generateTransactionId now suffix = ''TXN_'' @ digitsOf now @ ''_'' @ suffix"

subsection \<open>Configuration\<close>

record process_env =
  MPESA_CONSUMER_KEY :: "string option"
  MPESA_CONSUMER_SECRET :: "string option"
  MPESA_BUSINESS_SHORT_CODE :: "string option"
  MPESA_PASSKEY :: "string option"
  MPESA_CALLBACK_URL :: "string option"
  NODE_ENV :: "string option"

record mpesa_config =
  consumerKey :: "string option"
  consumerSecret :: "string option"
  businessShortCode :: string
  passkey :: "string option"
  callbackURL :: "string option"
  baseURL :: string

definition MPESA_CONFIG :: "process_env \<Rightarrow> mpesa_config" where
  "MPESA_CONFIG env =
     \<lparr> consumerKey = MPESA_CONSUMER_KEY env,
       consumerSecret = MPESA_CONSUMER_SECRET env,
       businessShortCode =
         (case MPESA_BUSINESS_SHORT_CODE env of
            None \<Rightarrow> ''174379''
          | Some c \<Rightarrow> if c = [] then ''174379'' else c),
       passkey = MPESA_PASSKEY env,
       callbackURL = MPESA_CALLBACK_URL env,
       baseURL = (if NODE_ENV env = Some ''production'' then ''https://api.safaricom.co.ke''
                  else ''https://sandbox.safaricom.co.ke'') \<rparr>"

text \<open>A variable of the environment inside a template literal; an unset one reads \<^verbatim>\<open>undefined\<close>.\<close>

definition template :: "string option \<Rightarrow> string" where
  "template v = (case v of None \<Rightarrow> ''undefined'' | Some x \<Rightarrow> x)"

definition generatePassword :: "mpesa_config \<Rightarrow> string \<Rightarrow> string" where
  "generatePassword cfg timestamp =
     toBase64 (businessShortCode cfg @ template (passkey cfg) @ timestamp)"

subsection \<open>The gateway\<close>

text \<open>
  An axios call resolves with \<^verbatim>\<open>response.data\<close> or rejects; the rejection carries
  \<^verbatim>\<open>error.response.data\<close> when the gateway answered with a status outside 2xx, and
  nothing when the network failed. The calls the server makes are recorded in order.
\<close>

datatype axios_result = Resolved jsval | Rejected "jsval option"

record stk_push =
  BusinessShortCode :: string
  Password :: string
  Timestamp :: string
  TransactionType :: string
  Amount :: jsnum
  PartyA :: string
  PartyB :: string
  PhoneNumber :: string
  CallBackURL :: "string option"
  AccountReference :: jsval
  TransactionDesc :: jsval

datatype outbound =
    TokenRequest string string
  | StkPushRequest string stk_push jsval

definition tokenRequest :: "mpesa_config \<Rightarrow> outbound" where
  "tokenRequest cfg =
     TokenRequest (baseURL cfg @ ''/oauth/v1/generate?grant_type=client_credentials'')
       (''Basic '' @ toBase64 (template (consumerKey cfg) @ '':'' @ template (consumerSecret cfg)))"

text \<open>
  \<^verbatim>\<open>getAccessToken()\<close>: whatever goes wrong inside its \<^verbatim>\<open>try\<close>, the rejection or the read
  of \<^verbatim>\<open>response.data.access_token\<close>, is logged and replaced by one fixed error.
\<close>

definition getAccessToken :: "axios_result \<Rightarrow> exn + jsval" where
  "getAccessToken r =
     (case r of
        Rejected _ \<Rightarrow> Inl AccessTokenError
      | Resolved data \<Rightarrow>
          (case getProp data ''access_token'' of
             Inl _ \<Rightarrow> Inl AccessTokenError
           | Inr token \<Rightarrow> Inr token))"

subsection \<open>Validation\<close>

text \<open>\<^verbatim>\<open>!amount || isNaN(amount) || parseFloat(amount) < 1\<close>, left to right.\<close>

definition invalidAmount :: "jsval \<Rightarrow> exn + bool" where
  "invalidAmount amount =
     (if \<not> truthy amount then Inr True
      else (case isNaN amount of
              Inl e \<Rightarrow> Inl e
            | Inr True \<Rightarrow> Inr True
            | Inr False \<Rightarrow>
                (case parseFloat amount of
                   Inl e \<Rightarrow> Inl e
                 | Inr x \<Rightarrow> Inr (js_less x (Fin 1)))))"

text \<open>\<^verbatim>\<open>!accountReference || accountReference.length < 3\<close>.\<close>

definition invalidReference :: "jsval \<Rightarrow> exn + bool" where
  "invalidReference accountReference =
     (if \<not> truthy accountReference then Inr True
      else (case getProp accountReference ''length'' of
              Inl e \<Rightarrow> Inl e
            | Inr len \<Rightarrow>
                (case ToNumber len of
                   Inl e \<Rightarrow> Inl e
                 | Inr n \<Rightarrow> Inr (js_less n (Fin 3)))))"

record validation =
  errors :: "string list"
  formattedPhone :: string

definition validatePaymentRequest :: "jsval \<Rightarrow> exn + validation" where
  "validatePaymentRequest data =
     (case getProp data ''amount'' of
        Inl e \<Rightarrow> Inl e
      | Inr amount \<Rightarrow>
     (case invalidAmount amount of
        Inl e \<Rightarrow> Inl e
      | Inr badAmount \<Rightarrow>
     (case formatPhoneNumberOf (getOptional data ''phoneNumber'') of
        Inl e \<Rightarrow> Inl e
      | Inr phone \<Rightarrow>
     (case invalidReference (getOptional data ''accountReference'') of
        Inl e \<Rightarrow> Inl e
      | Inr badReference \<Rightarrow>
          Inr \<lparr> errors =
                  (if badAmount then [''Invalid amount''] else [])
                  @ (if \<not> canonicalPhone phone then [''Invalid phone number format''] else [])
                  @ (if badReference then [''Invalid account reference''] else []),
                formattedPhone = phone \<rparr>))))"

subsection \<open>The transaction store\<close>

datatype tx_status = PENDING | SUCCESS | FAILED

text \<open>
  A stored transaction. A property the object does not have yet reads \<^verbatim>\<open>undefined\<close>
  (\<open>None\<close> for the date of the callback).
\<close>

record transaction =
  transactionId :: string
  checkoutRequestId :: jsval
  merchantRequestId :: jsval
  amount :: jsnum
  phoneNumber :: string
  accountReference :: jsval
  status :: tx_status
  timestamp :: nat
  mpesaResponse :: jsval
  mpesaReceiptNumber :: jsval
  failureReason :: jsval
  callbackReceived :: "nat option"
  callbackData :: jsval

text \<open>
  \<^verbatim>\<open>transactions\<close> is a \<^verbatim>\<open>Map\<close>: its entries in insertion order. \<^verbatim>\<open>set\<close> replaces the
  value of a key that is there, in place, and appends a new key; \<^verbatim>\<open>get\<close> looks a key up.
\<close>

type_synonym store = "(string \<times> transaction) list"

definition transactions_set :: "string \<Rightarrow> transaction \<Rightarrow> store \<Rightarrow> store" where
  "transactions_set k t transactions = AList.update k t transactions"

definition transactions_get :: "store \<Rightarrow> string \<Rightarrow> transaction option" where
  "transactions_get transactions k = map_of transactions k"

section \<open>Routes of the server\<close>

subsection \<open>POST /api/mpesa/initiate\<close>

text \<open>
  What one run of the handler reads from outside: the clock and the random suffix of the
  transaction id, \<^verbatim>\<open>new Date().toISOString()\<close> for the timestamp of the push, the
  answers of the gateway to the two calls, and the \<^verbatim>\<open>new Date()\<close> stored in the record.
\<close>

record initiate_env =
  idClock :: nat
  idSuffix :: string
  isoClock :: string
  tokenResult :: axios_result
  pushResult :: axios_result
  recordClock :: nat

text \<open>\<^verbatim>\<open>iso.replace(/[-:.TZ]/g, '').slice(0, 14)\<close>.\<close>

definition stkTimestamp :: "string \<Rightarrow> string" where
  "stkTimestamp isoString = take 14 (filter (\<lambda>c. c \<notin> set ''-:.TZ'') isoString)"

text \<open>\<^verbatim>\<open>error.response?.data?.errorMessage || 'Payment initiation failed'\<close>.\<close>

definition errorMessageOf :: "exn \<Rightarrow> jsval" where
  "errorMessageOf e =
     (case e of
        AxiosError (Some data) \<Rightarrow>
          (let m = getOptional data ''errorMessage''
           in if truthy m then m else Str ''Payment initiation failed'')
      | _ \<Rightarrow> Str ''Payment initiation failed'')"

text \<open>
  The \<^verbatim>\<open>try\<close> block: its response or the exception it ends with, the store and the
  calls made to the gateway until then. The headers of the push render the access token
  in a template literal (\<^verbatim>\<open>`Bearer ${accessToken}`\<close>) before the call is made.
\<close>

definition initiateTry ::
  "mpesa_config \<Rightarrow> initiate_env \<Rightarrow> jsval \<Rightarrow> store \<Rightarrow> (exn + nat \<times> jsval) \<times> store \<times> outbound list" where
  "initiateTry cfg env body transactions =
     (case getProp body ''amount'' of
        Inl e \<Rightarrow> (Inl e, transactions, [])
      | Inr amountIn \<Rightarrow>
     (case validatePaymentRequest body of
        Inl e \<Rightarrow> (Inl e, transactions, [])
      | Inr v \<Rightarrow>
          if 0 < length (errors v) then
            (Inr (400, Obj [(''ResponseCode'', Str ''1''),
                            (''errorMessage'', Str (join '', '' (errors v)))]),
             transactions, [])
          else
            (let newId = generateTransactionId (idClock env) (idSuffix env);
                 timestampNow = stkTimestamp (isoClock env)
             in (case getAccessToken (tokenResult env) of
                   Inl e \<Rightarrow> (Inl e, transactions, [tokenRequest cfg])
                 | Inr accessToken \<Rightarrow>
                (case parseFloat amountIn of
                   Inl e \<Rightarrow> (Inl e, transactions, [tokenRequest cfg])
                 | Inr parsed \<Rightarrow>
                     if toStringThrows accessToken then (Inl TypeError, transactions, [tokenRequest cfg])
                     else
                     (let accountReferenceIn = getOptional body ''accountReference'';
                          transactionDescIn = getOptional body ''transactionDesc'';
                          stkPushData =
                            \<lparr> BusinessShortCode = businessShortCode cfg,
                              Password = generatePassword cfg timestampNow,
                              Timestamp = timestampNow,
                              TransactionType = ''CustomerPayBillOnline'',
                              Amount = Math_round parsed,
                              PartyA = formattedPhone v,
                              PartyB = businessShortCode cfg,
                              PhoneNumber = formattedPhone v,
                              CallBackURL = callbackURL cfg,
                              AccountReference = accountReferenceIn,
                              TransactionDesc =
                                (if truthy transactionDescIn then transactionDescIn
                                 else Str ''Payment for services'') \<rparr>;
                          calls =
                            [tokenRequest cfg,
                             StkPushRequest (baseURL cfg @ ''/mpesa/stkpush/v1/processrequest'')
                               stkPushData accessToken]
                      in (case pushResult env of
                            Rejected r \<Rightarrow> (Inl (AxiosError r), transactions, calls)
                          | Resolved mpesaResponseIn \<Rightarrow>
                         (case getProp mpesaResponseIn ''CheckoutRequestID'' of
                            Inl e \<Rightarrow> (Inl e, transactions, calls)
                          | Inr checkoutId \<Rightarrow>
                              (Inr (200,
                                 Obj [(''ResponseCode'', getOptional mpesaResponseIn ''ResponseCode''),
                                      (''ResponseDescription'',
                                         getOptional mpesaResponseIn ''ResponseDescription''),
                                      (''transactionId'', Str newId),
                                      (''CheckoutRequestID'', checkoutId)]),
                               transactions_set newId
                                 \<lparr> transactionId = newId,
                                   checkoutRequestId = checkoutId,
                                   merchantRequestId =
                                     getOptional mpesaResponseIn ''MerchantRequestID'',
                                   amount = parsed,
                                   phoneNumber = formattedPhone v,
                                   accountReference = accountReferenceIn,
                                   status = PENDING,
                                   timestamp = recordClock env,
                                   mpesaResponse = mpesaResponseIn,
                                   mpesaReceiptNumber = Undefined,
                                   failureReason = Undefined,
                                   callbackReceived = None,
                                   callbackData = Undefined \<rparr>
                                 transactions,
                               calls)))))))))"

text \<open>The handler: the response of the \<^verbatim>\<open>try\<close> block, or the 500 of its \<^verbatim>\<open>catch\<close>.\<close>

definition mpesa_initiate ::
  "mpesa_config \<Rightarrow> initiate_env \<Rightarrow> jsval \<Rightarrow> store \<Rightarrow> (nat \<times> jsval) \<times> store \<times> outbound list" where
  "mpesa_initiate cfg env body transactions =
     (case initiateTry cfg env body transactions of
        (Inr response, transactions', calls) \<Rightarrow> (response, transactions', calls)
      | (Inl e, transactions', calls) \<Rightarrow>
          ((500, Obj [(''ResponseCode'', Str ''1''), (''errorMessage'', errorMessageOf e)]),
           transactions', calls))"

subsection \<open>POST /api/mpesa/callback\<close>

text \<open>
  \<^verbatim>\<open>Array.from(transactions.values()).find(t => t.checkoutRequestId ===
  stkCallback.CheckoutRequestID)\<close>: the first entry that matches, with the entries before
  and after it. The predicate reads \<^verbatim>\<open>stkCallback.CheckoutRequestID\<close> once per entry it
  visits, so nothing is thrown on an empty store.
\<close>

fun findTransaction ::
  "jsval \<Rightarrow> store \<Rightarrow> exn + (store \<times> (string \<times> transaction) \<times> store) option" where
  "findTransaction stkCallback [] = Inr None"
| "findTransaction stkCallback (kt # rest) =
     (case getProp stkCallback ''CheckoutRequestID'' of
        Inl e \<Rightarrow> Inl e
      | Inr c \<Rightarrow>
          if strict_eq (checkoutRequestId (snd kt)) c then Inr (Some ([], kt, rest))
          else (case findTransaction stkCallback rest of
                  Inl e \<Rightarrow> Inl e
                | Inr None \<Rightarrow> Inr None
                | Inr (Some (before, found, after)) \<Rightarrow> Inr (Some (kt # before, found, after))))"

text \<open>\<^verbatim>\<open>Item.find(item => item.Name === 'MpesaReceiptNumber')\<close> on an array.\<close>

fun findItem :: "jsval list \<Rightarrow> exn + jsval" where
  "findItem [] = Inr Undefined"
| "findItem (item # items) =
     (case getProp item ''Name'' of
        Inl e \<Rightarrow> Inl e
      | Inr n \<Rightarrow> if strict_eq n (Str ''MpesaReceiptNumber'') then Inr item else findItem items)"

text \<open>
  \<^verbatim>\<open>stkCallback.CallbackMetadata?.Item?.find(...)?.Value\<close>: only an array has \<^verbatim>\<open>find\<close>.
\<close>

definition receiptNumber :: "jsval \<Rightarrow> exn + jsval" where
  "receiptNumber stkCallback =
     (case getProp stkCallback ''CallbackMetadata'' of
        Inl e \<Rightarrow> Inl e
      | Inr metadata \<Rightarrow>
          if nullish metadata then Inr Undefined
          else (let items = getOptional metadata ''Item''
                in if nullish items then Inr Undefined
                   else (case items of
                           Arr xs \<Rightarrow>
                             (case findItem xs of
                                Inl e \<Rightarrow> Inl e
                              | Inr found \<Rightarrow>
                                  if nullish found then Inr Undefined
                                  else Inr (getOptional found ''Value''))
                         | _ \<Rightarrow> Inl TypeError)))"

text \<open>
  The \<^verbatim>\<open>try\<close> block up to its response: the exception it ends with, if any, and the
  store, which keeps every assignment made before an exception. On the failure branch the
  log line renders \<^verbatim>\<open>stkCallback.ResultDesc\<close> in a template literal, after the status and
  the reason have been assigned and before the date of the callback is.
\<close>

definition callbackTry :: "nat \<Rightarrow> jsval \<Rightarrow> store \<Rightarrow> exn option \<times> store" where
  "callbackTry now body transactions =
     (case getProp body ''Body'' of
        Inl e \<Rightarrow> (Some e, transactions)
      | Inr Body \<Rightarrow>
     (case getProp Body ''stkCallback'' of
        Inl e \<Rightarrow> (Some e, transactions)
      | Inr stkCallback \<Rightarrow>
     (case findTransaction stkCallback transactions of
        Inl e \<Rightarrow> (Some e, transactions)
      | Inr None \<Rightarrow> (None, transactions)
      | Inr (Some (before, (k, t), after)) \<Rightarrow>
     (case getProp stkCallback ''ResultCode'' of
        Inl e \<Rightarrow> (Some e, transactions)
      | Inr resultCode \<Rightarrow>
          if strict_eq resultCode (Num (Fin 0)) then
            (case receiptNumber stkCallback of
               Inl e \<Rightarrow> (Some e, before @ (k, t\<lparr>status := SUCCESS\<rparr>) # after)
             | Inr receipt \<Rightarrow>
                 (None,
                  before @ (k, t\<lparr>status := SUCCESS, mpesaReceiptNumber := receipt,
                                  callbackReceived := Some now,
                                  callbackData := stkCallback\<rparr>) # after))
          else
            (let resultDesc = getOptional stkCallback ''ResultDesc'';
                 t1 = t\<lparr>status := FAILED, failureReason := resultDesc\<rparr>
             in if toStringThrows resultDesc then (Some TypeError, before @ (k, t1) # after)
                else (None,
                      before @ (k, t1\<lparr>callbackReceived := Some now,
                                       callbackData := stkCallback\<rparr>) # after))))))"

text \<open>
  The handler logs \<^verbatim>\<open>JSON.stringify(req.body, null, 2)\<close> before its \<^verbatim>\<open>try\<close>. The
  serialiser recurses on the nesting of the value and throws a \<^verbatim>\<open>RangeError\<close> when the
  stack of the engine is exhausted; the depth the engine can take is a parameter here.
\<close>

fun nesting :: "jsval \<Rightarrow> nat" where
  "nesting (Arr xs) = Suc (foldr max (map nesting xs) 0)"
| "nesting (Obj kvs) = Suc (foldr max (map (\<lambda>kv. nesting (snd kv)) kvs) 0)"
| "nesting _ = 0"

text \<open>
  The handler: the log line, then the \<^verbatim>\<open>try\<close> block, which answers the same
  acknowledgment at its end and in its \<^verbatim>\<open>catch\<close>. What the log line throws leaves the
  handler.
\<close>

definition acknowledgment :: jsval where
  "acknowledgment = Obj [(''ResultCode'', Num (Fin 0)), (''ResultDesc'', Str ''Success'')]"

definition callbackHandler ::
  "nat \<Rightarrow> nat \<Rightarrow> jsval \<Rightarrow> store \<Rightarrow> (exn + nat \<times> jsval) \<times> store" where
  "callbackHandler stackLimit now body transactions =
     (if stackLimit < nesting body then (Inl RangeError, transactions)
      else (case callbackTry now body transactions of
              (None, transactions') \<Rightarrow> (Inr (200, acknowledgment), transactions')
            | (Some e, transactions') \<Rightarrow> (Inr (200, acknowledgment), transactions')))"

text \<open>
  What a request brings as its body: bytes that \<^verbatim>\<open>express.json()\<close> refuses to parse
  (truncated or otherwise malformed JSON), no JSON body at all, or a JSON text. The
  middleware is strict: it accepts a JSON text only when it is an object or an array, and
  hands the handler an empty object when there is no JSON body (as Express 4 does; where
  Express 5 leaves \<^verbatim>\<open>req.body\<close> undefined, the \<^verbatim>\<open>try\<close> block throws on it as it does
  on the empty object).
\<close>

datatype request_body = Unparsable | NoBody | Json jsval

definition express_json :: "request_body \<Rightarrow> exn + jsval" where
  "express_json request =
     (case request of
        Unparsable \<Rightarrow> Inl SyntaxError
      | NoBody \<Rightarrow> Inr (Obj [])
      | Json (Obj kvs) \<Rightarrow> Inr (Obj kvs)
      | Json (Arr xs) \<Rightarrow> Inr (Arr xs)
      | Json _ \<Rightarrow> Inl SyntaxError)"

text \<open>
  The error-handling middleware at the end of the file answers whatever the body parser
  or a handler lets out.
\<close>

definition errorMiddleware :: "nat \<times> jsval" where
  "errorMiddleware = (500, Obj [(''error'', Str ''Internal server error'')])"

text \<open>The route as the server runs it: the body parser, the handler, the error middleware.\<close>

definition mpesa_callback ::
  "nat \<Rightarrow> nat \<Rightarrow> request_body \<Rightarrow> store \<Rightarrow> (nat \<times> jsval) \<times> store" where
  "mpesa_callback stackLimit now request transactions =
     (case express_json request of
        Inl e \<Rightarrow> (errorMiddleware, transactions)
      | Inr body \<Rightarrow>
          (case callbackHandler stackLimit now body transactions of
             (Inl e, transactions') \<Rightarrow> (errorMiddleware, transactions')
           | (Inr response, transactions') \<Rightarrow> (response, transactions')))"

subsection \<open>GET /api/mpesa/status/:transactionId\<close>

text \<open>The object given to \<^verbatim>\<open>res.json\<close> for a transaction, or the error of the 404.\<close>

record status_json =
  json_transactionId :: string
  json_status :: tx_status
  json_amount :: jsnum
  json_phoneNumber :: string
  json_timestamp :: nat
  json_mpesaReceiptNumber :: jsval

datatype status_body = ErrorJson string | TransactionJson status_json

definition mpesa_status :: "string \<Rightarrow> store \<Rightarrow> (nat \<times> status_body) \<times> store" where
  "mpesa_status transactionIdParam transactions =
     (case transactions_get transactions transactionIdParam of
        None \<Rightarrow> ((404, ErrorJson ''Transaction not found''), transactions)
      | Some t \<Rightarrow>
          ((200, TransactionJson
                   \<lparr> json_transactionId = transactionIdParam,
                     json_status = status t,
                     json_amount = amount t,
                     json_phoneNumber = phoneNumber t,
                     json_timestamp = timestamp t,
                     json_mpesaReceiptNumber = mpesaReceiptNumber t \<rparr>),
           transactions))"

subsection \<open>Reading a callback\<close>

text \<open>
  The parts of a notification the handler looks at: \<^verbatim>\<open>Body.stkCallback\<close>, its
  \<^verbatim>\<open>CheckoutRequestID\<close> and its \<^verbatim>\<open>ResultCode\<close>, each \<^verbatim>\<open>undefined\<close> where the payload does
  not have it.
\<close>

definition callbackOf :: "jsval \<Rightarrow> jsval" where
  "callbackOf body = getOptional (getOptional body ''Body'') ''stkCallback''"

definition checkoutIdOf :: "jsval \<Rightarrow> jsval" where
  "checkoutIdOf stkCallback = getOptional stkCallback ''CheckoutRequestID''"

definition resultCodeOf :: "jsval \<Rightarrow> jsval" where
  "resultCodeOf stkCallback = getOptional stkCallback ''ResultCode''"

section \<open>The payment wizard\<close>

text \<open>
  The state of the component \<^verbatim>\<open>MpesaPayment\<close>: the step shown, the three fields of the
  form, the loading flag and the error text (whatever the server sent, when it sent a
  message).
\<close>

datatype FormStep = AmountStep | PhoneStep | PinStep | Processing | Success | Error

record FormData =
  formAmount :: string
  formPhoneNumber :: string
  formPin :: string

record wizard =
  step :: FormStep
  formData :: FormData
  loading :: bool
  error :: jsval

definition initialWizard :: wizard where
  "initialWizard =
     \<lparr> step = AmountStep,
       formData = \<lparr> formAmount = [], formPhoneNumber = [], formPin = [] \<rparr>,
       loading = False,
       error = Str [] \<rparr>"

definition handleAmountSubmit :: "wizard \<Rightarrow> wizard" where
  "handleAmountSubmit w =
     (if formAmount (formData w) = [] \<or> js_less (parseFloatStr (formAmount (formData w))) (Fin 1)
      then w\<lparr>error := Str ''Please enter a valid amount''\<rparr>
      else w\<lparr>error := Str [], step := PhoneStep\<rparr>)"

definition handlePhoneSubmit :: "wizard \<Rightarrow> wizard" where
  "handlePhoneSubmit w =
     (if \<not> canonicalPhone (formPhoneNumber (formData w))
      then w\<lparr>error := Str ''Please enter a valid phone number (254XXXXXXXXX)''\<rparr>
      else w\<lparr>error := Str [], step := PinStep\<rparr>)"

text \<open>The request of \<^verbatim>\<open>fetch\<close>; its body is the object given to \<^verbatim>\<open>JSON.stringify\<close>.\<close>

record http_request =
  requestUrl :: string
  requestMethod :: string
  requestHeaders :: "(string \<times> string) list"
  requestBody :: jsval

definition initiateRequest :: "nat \<Rightarrow> wizard \<Rightarrow> http_request" where
  "initiateRequest now w =
     \<lparr> requestUrl = ''/api/mpesa/initiate'',
       requestMethod = ''POST'',
       requestHeaders = [(''Content-Type'', ''application/json'')],
       requestBody =
         Obj [(''amount'', Str (formAmount (formData w))),
              (''phoneNumber'', Str (formPhoneNumber (formData w))),
              (''accountReference'', Str (''ORDER_'' @ digitsOf now)),
              (''transactionDesc'', Str ''Payment for services'')] \<rparr>"

text \<open>
  How the call ends: \<^verbatim>\<open>fetch\<close> rejects, or it resolves with a response, of which the
  wizard reads \<^verbatim>\<open>ok\<close> and the parsed body (\<open>None\<close> when the body is not JSON and
  \<^verbatim>\<open>response.json()\<close> rejects).
\<close>

datatype fetch_result = FetchRejected | FetchResponse bool "jsval option"

definition networkError :: "wizard \<Rightarrow> wizard" where
  "networkError w =
     w\<lparr>error := Str ''Network error. Please check your connection and try again.'',
       step := Error\<rparr>"

definition paymentFailed :: "jsval \<Rightarrow> wizard \<Rightarrow> wizard" where
  "paymentFailed data w =
     (case getProp data ''errorMessage'' of
        Inl e \<Rightarrow> networkError w
      | Inr m \<Rightarrow>
          w\<lparr>error := (if truthy m then m else Str ''Payment failed. Please try again.''),
            step := Error\<rparr>)"

text \<open>
  \<^verbatim>\<open>initiatePayment\<close>, from the call to the \<^verbatim>\<open>finally\<close>: the state once the promise has
  settled. \<^verbatim>\<open>data.ResponseCode\<close> is read only when \<^verbatim>\<open>response.ok\<close> holds.
\<close>

definition initiatePayment :: "fetch_result \<Rightarrow> wizard \<Rightarrow> wizard" where
  "initiatePayment r w =
     (let w1 = w\<lparr>loading := True, step := Processing\<rparr>;
          w2 = (case r of
                  FetchRejected \<Rightarrow> networkError w1
                | FetchResponse ok None \<Rightarrow> networkError w1
                | FetchResponse ok (Some data) \<Rightarrow>
                    if ok then
                      (case getProp data ''ResponseCode'' of
                         Inl e \<Rightarrow> networkError w1
                       | Inr code \<Rightarrow>
                           if strict_eq code (Str ''0'') then w1\<lparr>step := Success\<rparr>
                           else paymentFailed data w1)
                    else paymentFailed data w1)
      in w2\<lparr>loading := False\<rparr>)"

text \<open>\<^verbatim>\<open>handlePinSubmit\<close>: the state afterwards and the requests sent.\<close>

definition handlePinSubmit :: "nat \<Rightarrow> fetch_result \<Rightarrow> wizard \<Rightarrow> wizard \<times> http_request list" where
  "handlePinSubmit now r w =
     (if length (formPin (formData w)) \<noteq> 4
      then (w\<lparr>error := Str ''PIN must be 4 digits''\<rparr>, [])
      else (initiatePayment r (w\<lparr>error := Str []\<rparr>), [initiateRequest now (w\<lparr>error := Str []\<rparr>)]))"

definition resetForm :: "wizard \<Rightarrow> wizard" where
  "resetForm w =
     w\<lparr>step := AmountStep,
       formData := \<lparr> formAmount = [], formPhoneNumber = [], formPin = [] \<rparr>,
       error := Str [],
       loading := False\<rparr>"

definition clearError :: "wizard \<Rightarrow> wizard" where
  "clearError w = (if truthy (error w) then w\<lparr>error := Str []\<rparr> else w)"

text \<open>
  What the user can do: each step renders its own controls only, and a control that is
  not rendered cannot fire. The PIN input hands \<^verbatim>\<open>handleInputChange\<close> its value without
  the non-digits. A submission carries the clock and the outcome of the call it starts.
\<close>

datatype event =
    ChangeAmount string
  | SubmitAmount
  | ChangePhone string
  | SubmitPhone
  | BackToAmount
  | ChangePin string
  | SubmitPin nat fetch_result
  | BackToPhone
  | TryAgain
  | StartOver

fun fire :: "event \<Rightarrow> wizard \<Rightarrow> wizard \<times> http_request list" where
  "fire (ChangeAmount v) w =
     (if step w = AmountStep
      then (clearError (w\<lparr>formData := (formData w)\<lparr>formAmount := v\<rparr>\<rparr>), []) else (w, []))"
| "fire SubmitAmount w = (if step w = AmountStep then (handleAmountSubmit w, []) else (w, []))"
| "fire (ChangePhone v) w =
     (if step w = PhoneStep
      then (clearError (w\<lparr>formData := (formData w)\<lparr>formPhoneNumber := v\<rparr>\<rparr>), []) else (w, []))"
| "fire SubmitPhone w = (if step w = PhoneStep then (handlePhoneSubmit w, []) else (w, []))"
| "fire BackToAmount w = (if step w = PhoneStep then (w\<lparr>step := AmountStep\<rparr>, []) else (w, []))"
| "fire (ChangePin v) w =
     (if step w = PinStep
      then (clearError (w\<lparr>formData := (formData w)\<lparr>formPin := removeNonDigits v\<rparr>\<rparr>), [])
      else (w, []))"
| "fire (SubmitPin now r) w = (if step w = PinStep then handlePinSubmit now r w else (w, []))"
| "fire BackToPhone w = (if step w = PinStep then (w\<lparr>step := PhoneStep\<rparr>, []) else (w, []))"
| "fire TryAgain w = (if step w = Error then (w\<lparr>step := PinStep\<rparr>, []) else (w, []))"
| "fire StartOver w =
     (if step w = Success \<or> step w = Error then (resetForm w, []) else (w, []))"

text \<open>A run of the wizard: the final state and every request sent, in order.\<close>

fun run :: "event list \<Rightarrow> wizard \<Rightarrow> wizard \<times> http_request list" where
  "run [] w = (w, [])"
| "run (e # es) w =
     (case fire e w of
        (w1, sent) \<Rightarrow> (case run es w1 of (w2, sent') \<Rightarrow> (w2, sent @ sent')))"

text \<open>
  Two events that are the same but for the value of the PIN input, which is complete
  (four characters once its non-digits are removed) in both or in neither.
\<close>

fun samePinApart :: "event \<Rightarrow> event \<Rightarrow> bool" where
  "samePinApart (ChangePin p) (ChangePin q) =
     ((length (removeNonDigits p) = 4) = (length (removeNonDigits q) = 4))"
| "samePinApart e e' = (e = e')"

text \<open>An event with every digit typed into the PIN input replaced by a zero.\<close>

definition blankPin :: "event \<Rightarrow> event" where
  "blankPin e =
     (case e of ChangePin p \<Rightarrow> ChangePin (map (\<lambda>c. CHR ''0'') (removeNonDigits p)) | _ \<Rightarrow> e)"

text \<open>
  Two states of the wizard that agree on everything but the PIN, of which they agree on
  whether it has four characters.
\<close>

definition pinApart :: "wizard \<Rightarrow> wizard \<Rightarrow> bool" where
  "pinApart w w' \<longleftrightarrow>
     step w = step w' \<and> loading w = loading w' \<and> error w = error w'
     \<and> formAmount (formData w) = formAmount (formData w')
     \<and> formPhoneNumber (formData w) = formPhoneNumber (formData w')
     \<and> (length (formPin (formData w)) = 4) = (length (formPin (formData w')) = 4)"

text \<open>
  The values that a run hands the amount input and the phone input, and the clock values
  its submissions read.
\<close>

definition amountsTyped :: "event list \<Rightarrow> string list" where
  "amountsTyped es = concat (map (\<lambda>e. case e of ChangeAmount v \<Rightarrow> [v] | _ \<Rightarrow> []) es)"

definition phonesTyped :: "event list \<Rightarrow> string list" where
  "phonesTyped es = concat (map (\<lambda>e. case e of ChangePhone v \<Rightarrow> [v] | _ \<Rightarrow> []) es)"

definition clocksRead :: "event list \<Rightarrow> nat list" where
  "clocksRead es = concat (map (\<lambda>e. case e of SubmitPin now r \<Rightarrow> [now] | _ \<Rightarrow> []) es)"

text \<open>
  The request that the specification describes: a POST to \<^verbatim>\<open>/api/mpesa/initiate\<close> whose
  body has the keys \<^verbatim>\<open>amount\<close>, \<^verbatim>\<open>phoneNumber\<close>, \<^verbatim>\<open>accountReference\<close> and
  \<^verbatim>\<open>transactionDesc\<close> and no other; and every such request that can be built from the
  amounts and the phone numbers typed in a run and the clock values read in it.
\<close>

definition pinFreeRequest :: "string \<Rightarrow> string \<Rightarrow> nat \<Rightarrow> http_request" where
  "pinFreeRequest a p now =
     \<lparr> requestUrl = ''/api/mpesa/initiate'',
       requestMethod = ''POST'',
       requestHeaders = [(''Content-Type'', ''application/json'')],
       requestBody =
         Obj [(''amount'', Str a),
              (''phoneNumber'', Str p),
              (''accountReference'', Str (''ORDER_'' @ digitsOf now)),
              (''transactionDesc'', Str ''Payment for services'')] \<rparr>"

definition pinFreeRequests :: "event list \<Rightarrow> http_request list" where
  "pinFreeRequests es =
     concat (map (\<lambda>a. concat (map (\<lambda>p. map (pinFreeRequest a p) (clocksRead es))
                                    (phonesTyped es)))
                 (amountsTyped es))"

text \<open>
  What holds of the form all along a run: the amount in it was typed, or it is still
  empty and the wizard is at its first step; the phone number in it was typed, or it is
  still empty and the wizard has not gone past its second step.
\<close>

definition typedSoFar :: "string list \<Rightarrow> string list \<Rightarrow> wizard \<Rightarrow> bool" where
  "typedSoFar as ps w \<longleftrightarrow>
     (formAmount (formData w) \<in> set as \<or> formAmount (formData w) = [] \<and> step w = AmountStep)
     \<and> (formPhoneNumber (formData w) \<in> set ps
        \<or> formPhoneNumber (formData w) = [] \<and> (step w = AmountStep \<or> step w = PhoneStep))"

text \<open>
  A session: amount 100, a canonical phone number, the values the PIN input takes while
  the PIN is typed, and a submission that the server answers as in the sample run below.
\<close>

definition acceptedResponse :: jsval where
  "acceptedResponse =
     Obj [(''ResponseCode'', Str ''0''),
          (''ResponseDescription'', Str ''Success. Request accepted for processing''),
          (''transactionId'', Str ''TXN_1700000000000_k3j9x2m1q''),
          (''CheckoutRequestID'', Str ''ws_CO_191220191020363925'')]"

definition typedSession :: "string list \<Rightarrow> event list" where
  "typedSession keys =
     [ChangeAmount ''100'', SubmitAmount, ChangePhone ''254712345678'', SubmitPhone]
     @ map ChangePin keys
     @ [SubmitPin 1700000000000 (FetchResponse True (Some acceptedResponse))]"

definition rejectedResponse :: jsval where
  "rejectedResponse =
     Obj [(''ResponseCode'', Str ''1''), (''errorMessage'', Str ''Invalid amount'')]"

section \<open>Invariant of the store and sample data\<close>

text \<open>Every record is stored under its own \<^verbatim>\<open>transactionId\<close>.\<close>

definition keyed :: "store \<Rightarrow> bool" where
  "keyed transactions \<longleftrightarrow> list_all (\<lambda>kt. transactionId (snd kt) = fst kt) transactions"

text \<open>A \<^verbatim>\<open>Map\<close> holds a key once.\<close>

definition uniqueKeys :: "store \<Rightarrow> bool" where
  "uniqueKeys transactions \<longleftrightarrow> distinct (map fst transactions)"

text \<open>The stores the server can hold: it starts empty and only the three routes touch it.\<close>

inductive reachable :: "store \<Rightarrow> bool" where
  start: "reachable []"
| initiated: "reachable transactions \<Longrightarrow>
     reachable (fst (snd (mpesa_initiate cfg env body transactions)))"
| called_back: "reachable transactions \<Longrightarrow>
     reachable (snd (mpesa_callback stackLimit now request transactions))"
| queried: "reachable transactions \<Longrightarrow>
     reachable (snd (mpesa_status transactionIdParam transactions))"

text \<open>
  A transaction that a first callback has resolved as paid, and a later notification of
  the gateway for the same push that reports a cancellation.
\<close>

definition paidCallback :: jsval where
  "paidCallback =
     Obj [(''MerchantRequestID'', Str ''29115-34620561-1''),
          (''CheckoutRequestID'', Str ''ws_CO_191220191020363925''),
          (''ResultCode'', Num (Fin 0)),
          (''ResultDesc'', Str ''The service request is processed successfully.''),
          (''CallbackMetadata'',
             Obj [(''Item'',
                Arr [Obj [(''Name'', Str ''Amount''), (''Value'', Num (Fin 100))],
                     Obj [(''Name'', Str ''MpesaReceiptNumber''), (''Value'', Str ''NLJ7RT61SV'')],
                     Obj [(''Name'', Str ''PhoneNumber''), (''Value'', Num (Fin 254712345678))]])])]"

definition paidTransaction :: transaction where
  "paidTransaction =
     \<lparr> transactionId = ''TXN_1700000000000_k3j9x2m1q'',
       checkoutRequestId = Str ''ws_CO_191220191020363925'',
       merchantRequestId = Str ''29115-34620561-1'',
       amount = Fin 100,
       phoneNumber = ''254712345678'',
       accountReference = Str ''ORDER_1700000000000'',
       status = SUCCESS,
       timestamp = 1700000000500,
       mpesaResponse =
         Obj [(''MerchantRequestID'', Str ''29115-34620561-1''),
              (''CheckoutRequestID'', Str ''ws_CO_191220191020363925''),
              (''ResponseCode'', Str ''0''),
              (''ResponseDescription'', Str ''Success. Request accepted for processing'')],
       mpesaReceiptNumber = Str ''NLJ7RT61SV'',
       failureReason = Undefined,
       callbackReceived = Some 1700000020000,
       callbackData = paidCallback \<rparr>"

definition cancelledCallback :: jsval where
  "cancelledCallback =
     Obj [(''MerchantRequestID'', Str ''29115-34620561-1''),
          (''CheckoutRequestID'', Str ''ws_CO_191220191020363925''),
          (''ResultCode'', Num (Fin 1032)),
          (''ResultDesc'', Str ''Request cancelled by user'')]"

definition envelope :: "jsval \<Rightarrow> jsval" where
  "envelope stkCallback = Obj [(''Body'', Obj [(''stkCallback'', stkCallback)])]"

text \<open>The same transaction before any callback.\<close>

definition pendingTransaction :: transaction where
  "pendingTransaction =
     paidTransaction\<lparr>status := PENDING, mpesaReceiptNumber := Undefined,
                     callbackReceived := None, callbackData := Undefined\<rparr>"

text \<open>A second transaction, initiated later and still pending, and a store of the two.\<close>

definition laterTransaction :: transaction where
  "laterTransaction =
     pendingTransaction\<lparr>transactionId := ''TXN_1700000300000_p0o9i8u7y'',
                        checkoutRequestId := Str ''ws_CO_191220191025363926'',
                        amount := Fin 2500,
                        timestamp := 1700000300500\<rparr>"

definition twoTransactions :: store where
  "twoTransactions =
     [(''TXN_1700000000000_k3j9x2m1q'', paidTransaction),
      (''TXN_1700000300000_p0o9i8u7y'', laterTransaction)]"

text \<open>The sandbox of the gateway, and one run of the initiation that the gateway accepts.\<close>

definition sandboxEnv :: process_env where
  "sandboxEnv =
     \<lparr> MPESA_CONSUMER_KEY = Some ''consumer-key'',
       MPESA_CONSUMER_SECRET = Some ''consumer-secret'',
       MPESA_BUSINESS_SHORT_CODE = None,
       MPESA_PASSKEY = Some ''bfb279f9aa9bdbcf158e97dd71a467cd2e0c893059b10f78e6b72ada1ed2c919'',
       MPESA_CALLBACK_URL = Some ''https://example.com/api/mpesa/callback'',
       NODE_ENV = None \<rparr>"

definition acceptedRun :: initiate_env where
  "acceptedRun =
     \<lparr> idClock = 1700000000000,
       idSuffix = ''k3j9x2m1q'',
       isoClock = ''2023-11-14T22:13:20.000Z'',
       tokenResult = Resolved (Obj [(''access_token'', Str ''c9SQxWWhmdVRlyh0zh8gZDTkubVF''),
                                    (''expires_in'', Str ''3599'')]),
       pushResult = Resolved (mpesaResponse paidTransaction),
       recordClock = 1700000000500 \<rparr>"

definition paymentRequest :: jsval where
  "paymentRequest =
     Obj [(''amount'', Str ''100''),
          (''phoneNumber'', Str ''0712345678''),
          (''accountReference'', Str ''ORDER_1700000000000''),
          (''transactionDesc'', Str ''Payment for services'')]"

text \<open>
  The same run when the gateway refuses the credentials, and when it rejects the push;
  each answer carries a message of the gateway.
\<close>

definition tokenRejection :: jsval where
  "tokenRejection =
     Obj [(''requestId'', Str ''11728-2929992-1''),
          (''errorCode'', Str ''400.008.01''),
          (''errorMessage'', Str ''Invalid Authentication passed'')]"

definition tokenRejectedRun :: initiate_env where
  "tokenRejectedRun = acceptedRun\<lparr>tokenResult := Rejected (Some tokenRejection)\<rparr>"

definition pushRejection :: jsval where
  "pushRejection =
     Obj [(''requestId'', Str ''11728-2929992-2''),
          (''errorCode'', Str ''400.002.02''),
          (''errorMessage'', Str ''Bad Request - Invalid PhoneNumber'')]"

definition pushRejectedRun :: initiate_env where
  "pushRejectedRun = acceptedRun\<lparr>pushResult := Rejected (Some pushRejection)\<rparr>"

text \<open>A request whose amount is one space, and the record the server stores for it.\<close>

definition blankAmountRequest :: jsval where
  "blankAmountRequest =
     Obj [(''amount'', Str '' ''),
          (''phoneNumber'', Str ''0712345678''),
          (''accountReference'', Str ''ORDER_1700000000000''),
          (''transactionDesc'', Str ''Payment for services'')]"

text \<open>A request that fails the three checks.\<close>

definition rejectedRequest :: jsval where
  "rejectedRequest =
     Obj [(''amount'', Str ''0''), (''phoneNumber'', Str ''12345''), (''accountReference'', Str ''ab'')]"

section \<open>Phone normalisation\<close>

lemma canonicalPhone_digits: "canonicalPhone s \<Longrightarrow> list_all isDigit s"
proof -
  assume c: "canonicalPhone s"
  have "list_all isDigit (take 3 s @ drop 3 s)"
    using c unfolding canonicalPhone_def list_all_append by (simp add: isDigit_def)
  then show ?thesis by simp
qed

text \<open>
  C2. Phone normalisation is idempotent on canonical numbers: a string of the form 254
  followed by nine digits is returned unchanged; and \<^verbatim>\<open>"0712345678"\<close>,
  \<^verbatim>\<open>"712345678"\<close> and \<^verbatim>\<open>"254712345678"\<close> all normalise to \<^verbatim>\<open>"254712345678"\<close>.
\<close>

theorem formatPhoneNumber_canonical:
  "(canonicalPhone s \<longrightarrow> formatPhoneNumber s = s)
   \<and> formatPhoneNumber ''0712345678'' = ''254712345678''
   \<and> formatPhoneNumber ''712345678'' = ''254712345678''
   \<and> formatPhoneNumber ''254712345678'' = ''254712345678''"
proof (intro conjI impI)
  assume c: "canonicalPhone s"
  have p: "take 3 s = ''254''" using c by (simp add: canonicalPhone_def)
  obtain t where s: "s = ''254'' @ t"
    using append_take_drop_id [of 3 s] p by metis
  have "list_all isDigit t"
    using canonicalPhone_digits [OF c] unfolding s list_all_append by simp
  then have f: "filter isDigit t = t" by (simp add: list_all_iff)
  show "formatPhoneNumber s = s"
    unfolding s by (simp add: formatPhoneNumber_def removeNonDigits_def startsWith_def f isDigit_def)
next
  show "formatPhoneNumber ''0712345678'' = ''254712345678''"
    by (simp add: formatPhoneNumber_def removeNonDigits_def isDigit_def startsWith_def)
next
  show "formatPhoneNumber ''712345678'' = ''254712345678''"
    by (simp add: formatPhoneNumber_def removeNonDigits_def isDigit_def startsWith_def)
next
  show "formatPhoneNumber ''254712345678'' = ''254712345678''"
    by (simp add: formatPhoneNumber_def removeNonDigits_def isDigit_def startsWith_def)
qed

theorem formatPhoneNumber_canonical_witness:
  "canonicalPhone ''254700000001'' \<and> formatPhoneNumber ''254700000001'' = ''254700000001''"
proof -
  have c: "canonicalPhone ''254700000001''"
    by (simp add: canonicalPhone_def isDigit_def)
  from formatPhoneNumber_canonical [of "''254700000001''"] c show ?thesis by simp
qed

section \<open>Doubles and literals\<close>

text \<open>An integer below \<open>2^53\<close> is a double, and rounding leaves an integer alone.\<close>

lemma roundHalfEven_int: "roundHalfEven (of_int k) = k"
  by (simp add: roundHalfEven_def)

lemma ilog2_nonneg: "0 \<le> ilog2 n"
  by (induction n rule: ilog2.induct) (subst ilog2.simps, simp)

lemma ilog2_bound: "n < 2 ^ Suc k \<Longrightarrow> ilog2 n \<le> int k"
proof (induction k arbitrary: n)
  case 0
  then show ?case by (subst ilog2.simps) simp
next
  case (Suc k)
  show ?case
  proof (cases "n < 2")
    case True then show ?thesis by (subst ilog2.simps) simp
  next
    case False
    have "n div 2 < 2 ^ Suc k" using Suc.prems by simp
    from Suc.IH [OF this] False show ?thesis by (subst ilog2.simps) simp
  qed
qed

lemma toDouble_int:
  assumes "0 < n" "n < 2 ^ 53"
  shows "toDouble (of_int n) = Fin (of_int n)"
proof -
  have e: "ilog2 n \<le> 52" using ilog2_bound [of n 52] assms by simp
  have e0: "0 \<le> ilog2 n" by (rule ilog2_nonneg)
  define k where "k = nat (52 - ilog2 n)"
  have ulp: "pow2 (max (ilog2 n) (- 1022) - 52) = 1 / 2 ^ k"
    using e e0 by (auto simp: pow2_def k_def max_def)
  have q: "(of_int n :: rat) / (1 / 2 ^ k) = of_int (n * 2 ^ k)" by simp
  have v: "of_int (roundHalfEven (of_int n / (1 / 2 ^ k))) * (1 / 2 ^ k) = (of_int n :: rat)"
    unfolding q roundHalfEven_int by simp
  have "(of_int n :: rat) < 2 ^ 1024"
  proof -
    have "(of_int n :: rat) < of_int (2 ^ 53)" using assms by (simp only: of_int_less_iff)
    also have "\<dots> < 2 ^ 1024" by simp
    finally show ?thesis .
  qed
  then have lim: "\<not> pow2 1024 \<le> of_int n" by (simp add: pow2_def)
  have E: "(if 1 \<le> (of_int n :: rat) then ilog2 \<lfloor>(of_int n :: rat)\<rfloor>
             else - (ilog2 (\<lceil>1 / (of_int n :: rat)\<rceil> - 1) + 1)) = ilog2 n"
    using assms(1) by simp
  have "roundPositive (of_int n) = Some (of_int n)"
    by (simp only: roundPositive_def Let_def E ulp v lim if_False)
  then show ?thesis using assms(1) by (simp add: toDouble_def)
qed

lemmas literal_defs = parseFloatStr_def parseStrDecimalLiteral_def parseUnsignedDecimal_def
  parseExponent_def parseSign_def trimStart_def trim_def isWhiteSpace_def isDigit_def
  digitsValue_def digitValue_def startsWith_def pow10_def StringToNumber_def parseNonDecimal_def
  isRadixDigit_def Let_def

lemma toDouble_100: "toDouble 100 = Fin 100"
  using toDouble_int [of 100] by simp


lemma Math_round_int: "Math_round (Fin (of_int n)) = Fin (of_int n)"
proof -
  have "\<lfloor>(of_int n :: rat) + 1 / 2\<rfloor> = n" by (rule floor_unique) simp_all
  then show ?thesis by (simp add: Math_round.simps)
qed

lemma Math_round_100: "Math_round (Fin 100) = Fin 100"
  using Math_round_int [of 100] by simp

lemma parseFloat_100: "parseFloat (Str ''100'') = Inr (Fin 100)"
  by (simp add: parseFloat_def literal_defs toDouble_100)


section \<open>The sample run, evaluated\<close>

lemma validate_paymentRequest: "validatePaymentRequest paymentRequest = Inr \<lparr>errors = [], formattedPhone = ''254712345678''\<rparr>"
  by (simp add: validatePaymentRequest_def paymentRequest_def invalidAmount_def isNaN_def ToNumber_def
      parseFloat_def literal_defs toDouble_100 formatPhoneNumberOf_def formatPhoneNumber_def
      removeNonDigits_def canonicalPhone_def invalidReference_def getOptional_def)

lemma digits_id: "digitsOf 1700000000000 = ''1700000000000''"
  by (simp add: digitsOf.simps)

lemma sandbox_password: "generatePassword (MPESA_CONFIG sandboxEnv) ''20231114221320'' =
  ''MTc0Mzc5YmZiMjc5ZjlhYTliZGJjZjE1OGU5N2RkNzFhNDY3Y2QyZTBjODkzMDU5YjEwZjc4ZTZiNzJhZGExZWQyYzkxOTIwMjMxMTE0MjIxMzIw''"
  by (simp add: generatePassword_def MPESA_CONFIG_def sandboxEnv_def template_def toBase64_def utf8_def
      sextet_def base64Alphabet_def)

lemma sample_timestamp: "stkTimestamp ''2023-11-14T22:13:20.000Z'' = ''20231114221320''"
  by (simp add: stkTimestamp_def)

lemma sandbox_tokenRequest: "tokenRequest (MPESA_CONFIG sandboxEnv) = TokenRequest ''https://sandbox.safaricom.co.ke/oauth/v1/generate?grant_type=client_credentials'' ''Basic Y29uc3VtZXIta2V5OmNvbnN1bWVyLXNlY3JldA==''"
  by (simp add: tokenRequest_def MPESA_CONFIG_def sandboxEnv_def template_def toBase64_def utf8_def
      sextet_def base64Alphabet_def)

lemma initiate_accepted:
  "mpesa_initiate (MPESA_CONFIG sandboxEnv) (acceptedRun\<lparr>idSuffix := sfx\<rparr>) paymentRequest transactions =
     ((200, Obj [(''ResponseCode'', Str ''0''),
                 (''ResponseDescription'', Str ''Success. Request accepted for processing''),
                 (''transactionId'', Str (''TXN_1700000000000_'' @ sfx)),
                 (''CheckoutRequestID'', Str ''ws_CO_191220191020363925'')]),
      transactions_set (''TXN_1700000000000_'' @ sfx)
        (pendingTransaction\<lparr>transactionId := ''TXN_1700000000000_'' @ sfx\<rparr>) transactions,
      [tokenRequest (MPESA_CONFIG sandboxEnv),
       StkPushRequest ''https://sandbox.safaricom.co.ke/mpesa/stkpush/v1/processrequest''
         \<lparr> BusinessShortCode = ''174379'',
           Password = generatePassword (MPESA_CONFIG sandboxEnv) ''20231114221320'',
           Timestamp = ''20231114221320'',
           TransactionType = ''CustomerPayBillOnline'',
           Amount = Fin 100,
           PartyA = ''254712345678'',
           PartyB = ''174379'',
           PhoneNumber = ''254712345678'',
           CallBackURL = Some ''https://example.com/api/mpesa/callback'',
           AccountReference = Str ''ORDER_1700000000000'',
           TransactionDesc = Str ''Payment for services'' \<rparr>
         (Str ''c9SQxWWhmdVRlyh0zh8gZDTkubVF'')])"
proof -
  have cfg: "businessShortCode (MPESA_CONFIG sandboxEnv) = ''174379''"
    "baseURL (MPESA_CONFIG sandboxEnv) = ''https://sandbox.safaricom.co.ke''"
    "callbackURL (MPESA_CONFIG sandboxEnv) = Some ''https://example.com/api/mpesa/callback''"
    by (simp_all add: MPESA_CONFIG_def sandboxEnv_def)
  have amt: "getProp paymentRequest ''amount'' = Inr (Str ''100'')"
    by (simp add: paymentRequest_def)
  have opt: "getOptional paymentRequest ''accountReference'' = Str ''ORDER_1700000000000''"
    "getOptional paymentRequest ''transactionDesc'' = Str ''Payment for services''"
    by (simp_all add: paymentRequest_def getOptional_def)
  have resp: "getProp (mpesaResponse paidTransaction) ''CheckoutRequestID'' = Inr (Str ''ws_CO_191220191020363925'')"
    "getOptional (mpesaResponse paidTransaction) ''ResponseCode'' = Str ''0''"
    "getOptional (mpesaResponse paidTransaction) ''ResponseDescription'' = Str ''Success. Request accepted for processing''"
    "getOptional (mpesaResponse paidTransaction) ''MerchantRequestID'' = Str ''29115-34620561-1''"
    by (simp_all add: paidTransaction_def getOptional_def)
  have run: "idClock acceptedRun = 1700000000000"
    "isoClock acceptedRun = ''2023-11-14T22:13:20.000Z''"
    "getAccessToken (tokenResult acceptedRun) = Inr (Str ''c9SQxWWhmdVRlyh0zh8gZDTkubVF'')"
    "pushResult acceptedRun = Resolved (mpesaResponse paidTransaction)"
    "recordClock acceptedRun = 1700000000500"
    by (simp_all add: acceptedRun_def getAccessToken_def)
  show ?thesis
    unfolding mpesa_initiate_def initiateTry_def amt
    by (simp add: validate_paymentRequest cfg parseFloat_100 sample_timestamp digits_id generateTransactionId_def opt run resp Let_def
        Math_round_100 pendingTransaction_def)
       (simp add: paidTransaction_def)
qed

section \<open>The store under the three routes\<close>

lemma find_none:
  "findTransaction cb ts = Inr None \<Longrightarrow>
     \<forall>kt \<in> set ts. \<not> strict_eq (checkoutRequestId (snd kt)) (checkoutIdOf cb)"
  by (induction ts) (auto simp: checkoutIdOf_def getOptional_def split: sum.splits if_splits option.splits)

lemma find_some:
  "findTransaction cb ts = Inr (Some (before, kt, after)) \<Longrightarrow>
     ts = before @ kt # after
     \<and> strict_eq (checkoutRequestId (snd kt)) (checkoutIdOf cb)
     \<and> (\<forall>x \<in> set before. \<not> strict_eq (checkoutRequestId (snd x)) (checkoutIdOf cb))"
proof (induction ts arbitrary: before)
  case Nil
  then show ?case by simp
next
  case (Cons x ts)
  obtain c where c: "getProp cb ''CheckoutRequestID'' = Inr c"
    using Cons.prems by (auto split: sum.splits)
  then have cid: "checkoutIdOf cb = c" by (simp add: checkoutIdOf_def getOptional_def)
  show ?case
  proof (cases "strict_eq (checkoutRequestId (snd x)) c")
    case True
    then show ?thesis using Cons.prems c cid by auto
  next
    case False
    then obtain b where r: "findTransaction cb ts = Inr (Some (b, kt, after))" and b: "before = x # b"
      using Cons.prems c by (auto split: sum.splits option.splits)
    from Cons.IH [OF r] False b cid show ?thesis by auto
  qed
qed

text \<open>A value that is neither \<^verbatim>\<open>undefined\<close> nor \<^verbatim>\<open>null\<close> can be read.\<close>

lemma getProp_present: "\<not> nullish v \<Longrightarrow> getProp v k = Inr (getOptional v k)"
  by (cases v) (simp_all add: nullish_def getOptional_def)

lemma getOptional_nullish: "nullish v \<Longrightarrow> getOptional v k = Undefined"
  by (auto simp: nullish_def getOptional_def)

lemma callbackOf_present:
  assumes "\<not> nullish (callbackOf body)"
  shows "getProp body ''Body'' = Inr (getOptional body ''Body'')
         \<and> getProp (getOptional body ''Body'') ''stkCallback'' = Inr (callbackOf body)"
proof -
  have b: "\<not> nullish (getOptional body ''Body'')"
    using assms getOptional_nullish [of "getOptional body ''Body''" "''stkCallback''"]
    by (auto simp: callbackOf_def nullish_def)
  have "\<not> nullish body"
    using b getOptional_nullish [of body "''Body''"] by (auto simp: nullish_def)
  then show ?thesis using b by (simp add: getProp_present callbackOf_def)
qed

text \<open>The search finds the first record that matches.\<close>

lemma find_first:
  assumes "\<not> nullish cb"
    and "strict_eq (checkoutRequestId (snd kt)) (checkoutIdOf cb)"
    and "\<forall>x \<in> set before. \<not> strict_eq (checkoutRequestId (snd x)) (checkoutIdOf cb)"
  shows "findTransaction cb (before @ kt # after) = Inr (Some (before, kt, after))"
  using assms(3)
proof (induction before)
  case Nil
  show ?case using assms(1,2) by (simp add: getProp_present checkoutIdOf_def)
next
  case (Cons x before)
  then show ?case using assms(1) by (simp add: getProp_present checkoutIdOf_def)
qed

lemma find_unmatched:
  assumes "\<not> nullish cb"
    and "\<forall>x \<in> set ts. \<not> strict_eq (checkoutRequestId (snd x)) (checkoutIdOf cb)"
  shows "findTransaction cb ts = Inr None"
  using assms(2)
proof (induction ts)
  case Nil
  show ?case by simp
next
  case (Cons x ts)
  then show ?case using assms(1) by (simp add: getProp_present checkoutIdOf_def)
qed

text \<open>
  The \<^verbatim>\<open>try\<close> block of the callback rewrites the first record that matches, and nothing
  else; it leaves the store as it is when the payload has no \<^verbatim>\<open>Body.stkCallback\<close> or no
  record matches.
\<close>

lemma callbackTry_rewrites:
  assumes cb: "\<not> nullish (callbackOf body)"
    and m: "strict_eq (checkoutRequestId t) (checkoutIdOf (callbackOf body))"
    and f: "\<forall>x \<in> set before. \<not> strict_eq (checkoutRequestId (snd x)) (checkoutIdOf (callbackOf body))"
  shows "\<exists>t'. snd (callbackTry now body (before @ (k, t) # after)) = before @ (k, t') # after
           \<and> status t' = (if strict_eq (resultCodeOf (callbackOf body)) (Num (Fin 0))
                           then SUCCESS else FAILED)
           \<and> transactionId t' = transactionId t \<and> checkoutRequestId t' = checkoutRequestId t
           \<and> merchantRequestId t' = merchantRequestId t \<and> amount t' = amount t
           \<and> phoneNumber t' = phoneNumber t \<and> accountReference t' = accountReference t
           \<and> timestamp t' = timestamp t \<and> mpesaResponse t' = mpesaResponse t"
proof -
  note p = callbackOf_present [OF cb]
  have fd: "findTransaction (callbackOf body) (before @ (k, t) # after) = Inr (Some (before, (k, t), after))"
    using find_first [OF cb, of "(k, t)" before after] m f by simp
  have rc: "getProp (callbackOf body) ''ResultCode'' = Inr (resultCodeOf (callbackOf body))"
    using cb by (simp add: getProp_present resultCodeOf_def)
  show ?thesis
  proof (cases "strict_eq (resultCodeOf (callbackOf body)) (Num (Fin 0))")
    case True
    then show ?thesis using p fd rc
      by (cases "receiptNumber (callbackOf body)") (simp_all add: callbackTry_def)
  next
    case False
    then show ?thesis using p fd rc
      by (simp add: callbackTry_def Let_def)
  qed
qed

lemma callbackTry_unmatched:
  assumes "nullish (callbackOf body)
           \<or> (\<forall>x \<in> set transactions.
                 \<not> strict_eq (checkoutRequestId (snd x)) (checkoutIdOf (callbackOf body)))"
  shows "snd (callbackTry now body transactions) = transactions"
proof (cases "getProp body ''Body''")
  case (Inl e)
  then show ?thesis by (simp add: callbackTry_def)
next
  case B: (Inr Body)
  show ?thesis
  proof (cases "getProp Body ''stkCallback''")
    case (Inl e)
    then show ?thesis using B by (simp add: callbackTry_def)
  next
    case C: (Inr cb)
    have cb: "callbackOf body = cb"
      using B C by (simp add: callbackOf_def getOptional_def)
    show ?thesis
    proof (cases "nullish cb")
      case True
      then have "findTransaction cb transactions = Inr None \<or> (\<exists>e. findTransaction cb transactions = Inl e)"
        by (cases transactions) (auto simp: nullish_def)
      then show ?thesis using B C by (auto simp: callbackTry_def)
    next
      case False
      then have "findTransaction cb transactions = Inr None"
        using assms cb find_unmatched [of cb transactions] by simp
      then show ?thesis using B C by (simp add: callbackTry_def)
    qed
  qed
qed

text \<open>The store after the route: that of the \<^verbatim>\<open>try\<close> block when the handler reaches it.\<close>

lemma callback_store:
  "snd (mpesa_callback stackLimit now request transactions) =
     (case express_json request of
        Inl e \<Rightarrow> transactions
      | Inr body \<Rightarrow> if stackLimit < nesting body then transactions
                    else snd (callbackTry now body transactions))"
  by (simp add: mpesa_callback_def callbackHandler_def split: sum.splits prod.splits option.splits)

lemma callbackTry_keys:
  "map fst (snd (callbackTry now body transactions)) = map fst transactions
   \<and> (keyed transactions \<longrightarrow> keyed (snd (callbackTry now body transactions)))"
proof (cases "nullish (callbackOf body)
           \<or> (\<forall>x \<in> set transactions.
                 \<not> strict_eq (checkoutRequestId (snd x)) (checkoutIdOf (callbackOf body)))")
  case True
  then show ?thesis by (simp add: callbackTry_unmatched)
next
  case False
  then have cb: "\<not> nullish (callbackOf body)"
    and ex: "\<exists>x \<in> set transactions. strict_eq (checkoutRequestId (snd x)) (checkoutIdOf (callbackOf body))"
    by auto
  from ex obtain before x after where d: "transactions = before @ x # after"
    and m: "strict_eq (checkoutRequestId (snd x)) (checkoutIdOf (callbackOf body))"
    and f: "\<forall>y \<in> set before. \<not> strict_eq (checkoutRequestId (snd y)) (checkoutIdOf (callbackOf body))"
    using split_list_first_prop [of transactions
        "\<lambda>x. strict_eq (checkoutRequestId (snd x)) (checkoutIdOf (callbackOf body))"]
    by blast
  obtain k t where x: "x = (k, t)" by (cases x) auto
  from callbackTry_rewrites [OF cb, of t before now k after] m f x
  obtain t' where "snd (callbackTry now body (before @ (k, t) # after)) = before @ (k, t') # after"
    and "transactionId t' = transactionId t" by auto
  then show ?thesis using d x by (auto simp: keyed_def)
qed

lemma initiateTry_store:
  "fst (snd (initiateTry cfg env body transactions)) = transactions
   \<or> (\<exists>t. fst (snd (initiateTry cfg env body transactions))
            = transactions_set (generateTransactionId (idClock env) (idSuffix env)) t transactions
          \<and> status t = PENDING
          \<and> transactionId t = generateTransactionId (idClock env) (idSuffix env)
          \<and> (\<exists>b. fst (initiateTry cfg env body transactions) = Inr (200, b)))"
  by (auto simp: initiateTry_def Let_def split: sum.splits axios_result.splits)

lemma initiate_store:
  "fst (snd (mpesa_initiate cfg env body transactions)) = fst (snd (initiateTry cfg env body transactions))"
  by (simp add: mpesa_initiate_def split: prod.splits sum.splits)

lemma initiate_resolved_old:
  assumes "transactions_get (fst (snd (mpesa_initiate cfg env body transactions))) k = Some t"
    and "status t \<noteq> PENDING"
  shows "transactions_get transactions k = Some t"
  using assms initiateTry_store [of cfg env body transactions]
  by (auto simp: initiate_store transactions_get_def transactions_set_def update_conv' split: if_splits)

lemma keyed_update:
  "keyed transactions \<Longrightarrow> transactionId t = k \<Longrightarrow> keyed (transactions_set k t transactions)"
  unfolding keyed_def transactions_set_def
  by (induction transactions) auto

lemma keyed_initiate:
  "keyed transactions \<Longrightarrow> keyed (fst (snd (mpesa_initiate cfg env body transactions)))"
  using initiateTry_store [of cfg env body transactions]
  by (auto simp: initiate_store keyed_update)

lemma uniqueKeys_initiate:
  "uniqueKeys transactions \<Longrightarrow> uniqueKeys (fst (snd (mpesa_initiate cfg env body transactions)))"
  using initiateTry_store [of cfg env body transactions]
  by (auto simp: initiate_store uniqueKeys_def transactions_set_def distinct_update)

lemma keyed_callback:
  "keyed transactions \<Longrightarrow> keyed (snd (mpesa_callback stackLimit now request transactions))"
  using callbackTry_keys by (simp add: callback_store split: sum.splits)

lemma uniqueKeys_callback:
  "uniqueKeys transactions \<Longrightarrow> uniqueKeys (snd (mpesa_callback stackLimit now request transactions))"
  using callbackTry_keys by (simp add: callback_store uniqueKeys_def split: sum.splits)

lemma status_store: "snd (mpesa_status tid transactions) = transactions"
  by (simp add: mpesa_status_def split: option.splits)

lemma reachable_keyed: "reachable transactions \<Longrightarrow> keyed transactions \<and> uniqueKeys transactions"
proof (induction rule: reachable.induct)
  case start
  show ?case by (simp add: keyed_def uniqueKeys_def)
next
  case (initiated transactions cfg env body)
  then show ?case by (simp add: keyed_initiate uniqueKeys_initiate)
next
  case (called_back transactions stackLimit now request)
  then show ?case by (simp add: keyed_callback uniqueKeys_callback)
next
  case (queried transactions transactionIdParam)
  then show ?case by (simp add: status_store)
qed

lemma envelope_accepted: "express_json (Json (envelope cb)) = Inr (envelope cb)"
  by (simp add: express_json_def envelope_def)

lemma nesting_paidCallback: "nesting (envelope paidCallback) = 6"
  by (simp add: envelope_def paidCallback_def)

lemma nesting_cancelledCallback: "nesting (envelope cancelledCallback) = 3"
  by (simp add: envelope_def cancelledCallback_def)

lemma callback_paid:
  "snd (mpesa_callback 1000 1700000020000 (Json (envelope paidCallback))
          [(''TXN_1700000000000_k3j9x2m1q'', pendingTransaction)])
   = [(''TXN_1700000000000_k3j9x2m1q'', paidTransaction)]"
  by (simp add: callback_store envelope_accepted nesting_paidCallback)
     (simp add: callbackTry_def envelope_def paidCallback_def receiptNumber_def
      nullish_def paidTransaction_def pendingTransaction_def getOptional_def)

text \<open>The store of the samples is one the server reaches: an initiation, then a callback.\<close>

lemma paid_store_reachable: "reachable [(''TXN_1700000000000_k3j9x2m1q'', paidTransaction)]"
proof -
  have r: "acceptedRun\<lparr>idSuffix := ''k3j9x2m1q''\<rparr> = acceptedRun" by (simp add: acceptedRun_def)
  have p: "pendingTransaction\<lparr>transactionId := ''TXN_1700000000000_k3j9x2m1q''\<rparr> = pendingTransaction"
    by (simp add: pendingTransaction_def paidTransaction_def)
  have "fst (snd (mpesa_initiate (MPESA_CONFIG sandboxEnv) acceptedRun paymentRequest [])) =
          [(''TXN_1700000000000_k3j9x2m1q'', pendingTransaction)]"
    using initiate_accepted [of "''k3j9x2m1q''" "[]"] p unfolding r
    by (simp add: transactions_set_def)
  then have "reachable [(''TXN_1700000000000_k3j9x2m1q'', pendingTransaction)]"
    using reachable.initiated [OF reachable.start, of "MPESA_CONFIG sandboxEnv" acceptedRun paymentRequest]
    by simp
  from reachable.called_back [OF this, of 1000 1700000020000 "Json (envelope paidCallback)"]
  show ?thesis by (simp add: callback_paid)
qed

section \<open>Transitions of a record\<close>

text \<open>
  C1, as the code has it. A callback that the server takes in (a JSON object or array,
  logged without exhausting the stack) and that carries \<^verbatim>\<open>Body.stkCallback\<close> rewrites
  the first record, in insertion order, whose \<^verbatim>\<open>checkoutRequestId\<close> is strictly equal
  to the \<^verbatim>\<open>CheckoutRequestID\<close> of the callback, and no other record: the status of that
  record becomes \<^verbatim>\<open>SUCCESS\<close> when \<^verbatim>\<open>ResultCode === 0\<close> and \<^verbatim>\<open>FAILED\<close> otherwise,
  whatever it was before, and the fields written at initiation stay as they were. A
  callback that is refused, that has no \<^verbatim>\<open>Body.stkCallback\<close> or that matches no record
  leaves the store unchanged. Only the callback handler sets a status to \<^verbatim>\<open>SUCCESS\<close>
  or \<^verbatim>\<open>FAILED\<close>: the status query changes nothing, and a record that initiation leaves
  in the store with one of these statuses was there before, unchanged.
\<close>

theorem callback_transition:
  "(express_json request = Inr body \<and> nesting body \<le> stackLimit
      \<and> \<not> nullish (callbackOf body)
      \<and> transactions = before @ (k, t) # after
      \<and> strict_eq (checkoutRequestId t) (checkoutIdOf (callbackOf body))
      \<and> (\<forall>x \<in> set before.
            \<not> strict_eq (checkoutRequestId (snd x)) (checkoutIdOf (callbackOf body)))
    \<longrightarrow> (\<exists>t'. snd (mpesa_callback stackLimit now request transactions) = before @ (k, t') # after
           \<and> status t' = (if strict_eq (resultCodeOf (callbackOf body)) (Num (Fin 0))
                           then SUCCESS else FAILED)
           \<and> transactionId t' = transactionId t \<and> checkoutRequestId t' = checkoutRequestId t
           \<and> merchantRequestId t' = merchantRequestId t \<and> amount t' = amount t
           \<and> phoneNumber t' = phoneNumber t \<and> accountReference t' = accountReference t
           \<and> timestamp t' = timestamp t \<and> mpesaResponse t' = mpesaResponse t))
   \<and> ((\<forall>b. express_json request = Inr b \<longrightarrow>
             stackLimit < nesting b \<or> nullish (callbackOf b)
             \<or> (\<forall>x \<in> set transactions.
                   \<not> strict_eq (checkoutRequestId (snd x)) (checkoutIdOf (callbackOf b))))
    \<longrightarrow> snd (mpesa_callback stackLimit now request transactions) = transactions)
   \<and> snd (mpesa_status transactionIdParam transactions) = transactions
   \<and> (\<forall>j u. transactions_get (fst (snd (mpesa_initiate cfg env payment transactions))) j = Some u
              \<and> status u \<noteq> PENDING
          \<longrightarrow> transactions_get transactions j = Some u)"
proof (intro conjI allI impI)
  assume a: "express_json request = Inr body \<and> nesting body \<le> stackLimit
      \<and> \<not> nullish (callbackOf body)
      \<and> transactions = before @ (k, t) # after
      \<and> strict_eq (checkoutRequestId t) (checkoutIdOf (callbackOf body))
      \<and> (\<forall>x \<in> set before.
            \<not> strict_eq (checkoutRequestId (snd x)) (checkoutIdOf (callbackOf body)))"
  then have s: "snd (mpesa_callback stackLimit now request transactions) =
                  snd (callbackTry now body (before @ (k, t) # after))"
    by (simp add: callback_store)
  from a callbackTry_rewrites [of body t before now k after]
  show "\<exists>t'. snd (mpesa_callback stackLimit now request transactions) = before @ (k, t') # after
           \<and> status t' = (if strict_eq (resultCodeOf (callbackOf body)) (Num (Fin 0))
                           then SUCCESS else FAILED)
           \<and> transactionId t' = transactionId t \<and> checkoutRequestId t' = checkoutRequestId t
           \<and> merchantRequestId t' = merchantRequestId t \<and> amount t' = amount t
           \<and> phoneNumber t' = phoneNumber t \<and> accountReference t' = accountReference t
           \<and> timestamp t' = timestamp t \<and> mpesaResponse t' = mpesaResponse t"
    unfolding s by blast
next
  assume n: "\<forall>b. express_json request = Inr b \<longrightarrow>
             stackLimit < nesting b \<or> nullish (callbackOf b)
             \<or> (\<forall>x \<in> set transactions.
                   \<not> strict_eq (checkoutRequestId (snd x)) (checkoutIdOf (callbackOf b)))"
  show "snd (mpesa_callback stackLimit now request transactions) = transactions"
  proof (cases "express_json request")
    case (Inl e)
    then show ?thesis by (simp add: callback_store)
  next
    case (Inr b)
    with n have "stackLimit < nesting b \<or> nullish (callbackOf b)
             \<or> (\<forall>x \<in> set transactions.
                   \<not> strict_eq (checkoutRequestId (snd x)) (checkoutIdOf (callbackOf b)))"
      by simp
    then show ?thesis using Inr callbackTry_unmatched [of b transactions now]
      by (auto simp: callback_store)
  qed
next
  show "snd (mpesa_status transactionIdParam transactions) = transactions"
    by (rule status_store)
next
  fix j u
  assume "transactions_get (fst (snd (mpesa_initiate cfg env payment transactions))) j = Some u
            \<and> status u \<noteq> PENDING"
  then show "transactions_get transactions j = Some u"
    using initiate_resolved_old by blast
qed

theorem callback_transition_witness:
  "express_json (Json (envelope paidCallback)) = Inr (envelope paidCallback)
   \<and> nesting (envelope paidCallback) \<le> 1000
   \<and> \<not> nullish (callbackOf (envelope paidCallback))
   \<and> strict_eq (checkoutRequestId pendingTransaction)
        (checkoutIdOf (callbackOf (envelope paidCallback)))
   \<and> strict_eq (resultCodeOf (callbackOf (envelope paidCallback))) (Num (Fin 0))
   \<and> status pendingTransaction = PENDING
   \<and> (\<exists>t'. snd (mpesa_callback 1000 1700000020000 (Json (envelope paidCallback))
                   [(''TXN_1700000000000_k3j9x2m1q'', pendingTransaction)])
               = [(''TXN_1700000000000_k3j9x2m1q'', t')]
             \<and> status t' = SUCCESS \<and> amount t' = Fin 100)
   \<and> express_json Unparsable = Inl SyntaxError
   \<and> snd (mpesa_callback 1000 1700000020000 Unparsable
             [(''TXN_1700000000000_k3j9x2m1q'', pendingTransaction)])
       = [(''TXN_1700000000000_k3j9x2m1q'', pendingTransaction)]
   \<and> transactions_get
        (fst (snd (mpesa_initiate (MPESA_CONFIG sandboxEnv) (acceptedRun\<lparr>idSuffix := ''p0o9i8u7y''\<rparr>)
                     paymentRequest [(''TXN_1700000000000_k3j9x2m1q'', paidTransaction)])))
        ''TXN_1700000000000_k3j9x2m1q'' = Some paidTransaction
   \<and> status paidTransaction = SUCCESS
   \<and> transactions_get [(''TXN_1700000000000_k3j9x2m1q'', paidTransaction)]
        ''TXN_1700000000000_k3j9x2m1q'' = Some paidTransaction"
proof -
  have f: "\<not> nullish (callbackOf (envelope paidCallback))"
    "strict_eq (checkoutRequestId pendingTransaction)
        (checkoutIdOf (callbackOf (envelope paidCallback)))"
    "strict_eq (resultCodeOf (callbackOf (envelope paidCallback))) (Num (Fin 0))"
    "status pendingTransaction = PENDING" "amount pendingTransaction = Fin 100"
    "status paidTransaction = SUCCESS"
    by (simp_all add: envelope_def paidCallback_def pendingTransaction_def paidTransaction_def
        checkoutIdOf_def callbackOf_def resultCodeOf_def getOptional_def nullish_def)
  have u: "express_json Unparsable = Inl SyntaxError" by (simp add: express_json_def)
  note a = callback_transition [of "Json (envelope paidCallback)" "envelope paidCallback" 1000
      "[(''TXN_1700000000000_k3j9x2m1q'', pendingTransaction)]" "[]"
      "''TXN_1700000000000_k3j9x2m1q''" pendingTransaction "[]" 1700000020000
      "''TXN_1700000000000_k3j9x2m1q''" "MPESA_CONFIG sandboxEnv" acceptedRun paymentRequest,
      THEN conjunct1]
  note b = callback_transition [of Unparsable Undefined 1000
      "[(''TXN_1700000000000_k3j9x2m1q'', pendingTransaction)]" "[]"
      "''TXN_1700000000000_k3j9x2m1q''" pendingTransaction "[]" 1700000020000
      "''TXN_1700000000000_k3j9x2m1q''" "MPESA_CONFIG sandboxEnv" acceptedRun paymentRequest,
      THEN conjunct2, THEN conjunct1]
  note c = callback_transition [of Unparsable Undefined 1000
      "[(''TXN_1700000000000_k3j9x2m1q'', paidTransaction)]" "[]"
      "''TXN_1700000000000_k3j9x2m1q''" paidTransaction "[]" 1700000020000
      "''TXN_1700000000000_k3j9x2m1q''" "MPESA_CONFIG sandboxEnv"
      "acceptedRun\<lparr>idSuffix := ''p0o9i8u7y''\<rparr>" paymentRequest,
      THEN conjunct2, THEN conjunct2, THEN conjunct2]
  have i: "transactions_get
        (fst (snd (mpesa_initiate (MPESA_CONFIG sandboxEnv) (acceptedRun\<lparr>idSuffix := ''p0o9i8u7y''\<rparr>)
                     paymentRequest [(''TXN_1700000000000_k3j9x2m1q'', paidTransaction)])))
        ''TXN_1700000000000_k3j9x2m1q'' = Some paidTransaction"
    by (simp add: initiate_accepted transactions_get_def transactions_set_def)
  have np: "status paidTransaction \<noteq> PENDING" using f(6) by simp
  have i': "transactions_get [(''TXN_1700000000000_k3j9x2m1q'', paidTransaction)]
        ''TXN_1700000000000_k3j9x2m1q'' = Some paidTransaction"
    by (rule c [rule_format, OF conjI, OF i np])
  from a f have p: "\<exists>t'. snd (mpesa_callback 1000 1700000020000 (Json (envelope paidCallback))
                   [(''TXN_1700000000000_k3j9x2m1q'', pendingTransaction)])
               = [(''TXN_1700000000000_k3j9x2m1q'', t')]
             \<and> status t' = SUCCESS \<and> amount t' = Fin 100"
    by (simp add: envelope_accepted nesting_paidCallback) blast
  from b u have q: "snd (mpesa_callback 1000 1700000020000 Unparsable
             [(''TXN_1700000000000_k3j9x2m1q'', pendingTransaction)])
       = [(''TXN_1700000000000_k3j9x2m1q'', pendingTransaction)]" by simp
  show ?thesis using f u p q i i' by (simp add: envelope_accepted nesting_paidCallback)
qed

text \<open>
  C1 as stated fails: a record already resolved as \<^verbatim>\<open>SUCCESS\<close> is rewritten by a later
  callback with the same \<^verbatim>\<open>CheckoutRequestID\<close> and a non-zero \<^verbatim>\<open>ResultCode\<close>; its
  status goes from \<^verbatim>\<open>SUCCESS\<close> to \<^verbatim>\<open>FAILED\<close>.
\<close>

theorem resolved_record_overwritten:
  "status paidTransaction = SUCCESS
   \<and> strict_eq (checkoutRequestId paidTransaction)
        (checkoutIdOf (callbackOf (envelope cancelledCallback)))
   \<and> mpesa_callback 1000 1700000090000 (Json (envelope cancelledCallback))
        [(''TXN_1700000000000_k3j9x2m1q'', paidTransaction)]
       = ((200, acknowledgment),
          [(''TXN_1700000000000_k3j9x2m1q'',
            paidTransaction\<lparr>status := FAILED,
                             failureReason := Str ''Request cancelled by user'',
                             callbackReceived := Some 1700000090000,
                             callbackData := cancelledCallback\<rparr>)])
   \<and> snd (mpesa_callback 1000 1700000090000 (Json (envelope cancelledCallback))
            [(''TXN_1700000000000_k3j9x2m1q'', paidTransaction)])
       \<noteq> [(''TXN_1700000000000_k3j9x2m1q'', paidTransaction)]"
  by (simp add: mpesa_callback_def callbackHandler_def envelope_accepted nesting_cancelledCallback)
     (simp add: callbackTry_def envelope_def cancelledCallback_def
       paidTransaction_def checkoutIdOf_def callbackOf_def getOptional_def Let_def)

section \<open>The acknowledgment of a callback\<close>

text \<open>
  The \<^verbatim>\<open>try\<close> block does throw: on a payload without the envelope, on an envelope
  without \<^verbatim>\<open>stkCallback\<close> when the store is not empty, and half way through a success
  whose \<^verbatim>\<open>Item\<close> is not an array, the status already assigned.
\<close>

lemma callback_throws:
  "callbackTry now Undefined transactions = (Some TypeError, transactions)"
  "callbackTry now (Obj []) transactions = (Some TypeError, transactions)"
  "callbackTry now (envelope Null) [(''TXN_1700000000000_k3j9x2m1q'', pendingTransaction)]
     = (Some TypeError, [(''TXN_1700000000000_k3j9x2m1q'', pendingTransaction)])"
  "callbackTry now (envelope Null) [] = (None, [])"
  by (simp_all add: callbackTry_def envelope_def)

lemma callback_half_done:
  "callbackTry now
     (envelope (Obj [(''CheckoutRequestID'', Str ''ws_CO_191220191020363925''),
                     (''ResultCode'', Num (Fin 0)),
                     (''CallbackMetadata'', Obj [(''Item'', Str ''NLJ7RT61SV'')])]))
     [(''TXN_1700000000000_k3j9x2m1q'', pendingTransaction)]
   = (Some TypeError,
      [(''TXN_1700000000000_k3j9x2m1q'', pendingTransaction\<lparr>status := SUCCESS\<rparr>)])"
  by (simp add: callbackTry_def envelope_def receiptNumber_def nullish_def getOptional_def
      pendingTransaction_def paidTransaction_def)

text \<open>
  Once the body parser has handed the handler a body and the log line has been written,
  the answer is 200 with \<^verbatim>\<open>{ResultCode: 0, ResultDesc: "Success"}\<close>: whatever the shape
  of the body (an envelope that is missing included), whether or not a stored record
  matches, and whether or not the \<^verbatim>\<open>try\<close> block throws.
\<close>

lemma callback_acknowledged:
  assumes "express_json request = Inr body" and "nesting body \<le> stackLimit"
  shows "fst (mpesa_callback stackLimit now request transactions)
           = (200, Obj [(''ResultCode'', Num (Fin 0)), (''ResultDesc'', Str ''Success'')])"
  using assms
  by (simp add: mpesa_callback_def callbackHandler_def acknowledgment_def
      split: prod.splits option.splits)

theorem callback_acknowledged_witness:
  "express_json NoBody = Inr (Obj []) \<and> nesting (Obj []) \<le> 1000
   \<and> mpesa_callback 1000 1700000020000 NoBody
        [(''TXN_1700000000000_k3j9x2m1q'', pendingTransaction)]
      = ((200, Obj [(''ResultCode'', Num (Fin 0)), (''ResultDesc'', Str ''Success'')]),
         [(''TXN_1700000000000_k3j9x2m1q'', pendingTransaction)])"
proof -
  have e: "express_json NoBody = Inr (Obj [])" by (simp add: express_json_def)
  have n: "nesting (Obj []) \<le> 1000" by simp
  have s: "snd (mpesa_callback 1000 1700000020000 NoBody
        [(''TXN_1700000000000_k3j9x2m1q'', pendingTransaction)])
        = [(''TXN_1700000000000_k3j9x2m1q'', pendingTransaction)]"
    by (simp add: callback_store e callback_throws)
  from callback_acknowledged [OF e n, of 1700000020000
      "[(''TXN_1700000000000_k3j9x2m1q'', pendingTransaction)]"] s e
  show ?thesis by (simp add: prod_eq_iff)
qed

text \<open>
  C5 fails on a callback that the body parser refuses. A request whose JSON text is
  \<^verbatim>\<open>null\<close>, or whose body is truncated JSON, never reaches the handler:
  \<^verbatim>\<open>express.json()\<close> passes a \<^verbatim>\<open>SyntaxError\<close> on, and the error middleware answers
  500 with \<^verbatim>\<open>{error: "Internal server error"}\<close>, not the acknowledgment; the store is
  as it was.
\<close>

theorem callback_refused_payload:
  "express_json (Json Null) = Inl SyntaxError
   \<and> mpesa_callback stackLimit now (Json Null) transactions =
       ((500, Obj [(''error'', Str ''Internal server error'')]), transactions)
   \<and> express_json Unparsable = Inl SyntaxError
   \<and> mpesa_callback stackLimit now Unparsable transactions =
       ((500, Obj [(''error'', Str ''Internal server error'')]), transactions)
   \<and> fst (mpesa_callback stackLimit now (Json Null) transactions)
       \<noteq> (200, Obj [(''ResultCode'', Num (Fin 0)), (''ResultDesc'', Str ''Success'')])
   \<and> fst (mpesa_callback stackLimit now Unparsable transactions)
       \<noteq> (200, Obj [(''ResultCode'', Num (Fin 0)), (''ResultDesc'', Str ''Success'')])"
  by (simp add: mpesa_callback_def express_json_def errorMiddleware_def)

section \<open>The status query\<close>

text \<open>
  C9. On a store that keeps every record under its own id and no id twice (every store
  the server can reach), the status query of an id that no entry of the store has
  answers 404 with an error body; of an id that an entry of the store has, whichever
  entry it is, it answers 200 with the \<^verbatim>\<open>transactionId\<close>, \<^verbatim>\<open>status\<close>, \<^verbatim>\<open>amount\<close>,
  \<^verbatim>\<open>phoneNumber\<close>, \<^verbatim>\<open>timestamp\<close> and \<^verbatim>\<open>mpesaReceiptNumber\<close> of the record stored
  there. It leaves the store as it was.
\<close>

theorem status_query:
  "keyed transactions \<Longrightarrow> uniqueKeys transactions \<Longrightarrow>
     (tid \<notin> fst ` set transactions \<longrightarrow>
        mpesa_status tid transactions = ((404, ErrorJson ''Transaction not found''), transactions))
     \<and> (\<forall>t. (tid, t) \<in> set transactions \<longrightarrow>
        mpesa_status tid transactions =
          ((200, TransactionJson
                   \<lparr> json_transactionId = transactionId t,
                     json_status = status t,
                     json_amount = amount t,
                     json_phoneNumber = phoneNumber t,
                     json_timestamp = timestamp t,
                     json_mpesaReceiptNumber = mpesaReceiptNumber t \<rparr>),
           transactions))"
proof (intro conjI allI impI)
  assume "tid \<notin> fst ` set transactions"
  then have "map_of transactions tid = None" by (simp add: map_of_eq_None_iff)
  then show "mpesa_status tid transactions = ((404, ErrorJson ''Transaction not found''), transactions)"
    by (simp add: mpesa_status_def transactions_get_def)
next
  fix t
  assume k: "keyed transactions" and u: "uniqueKeys transactions" and m: "(tid, t) \<in> set transactions"
  from u m have g: "map_of transactions tid = Some t"
    by (simp add: uniqueKeys_def)
  from k m have "transactionId t = tid"
    by (auto simp: keyed_def list_all_iff)
  with g show "mpesa_status tid transactions =
          ((200, TransactionJson
                   \<lparr> json_transactionId = transactionId t,
                     json_status = status t,
                     json_amount = amount t,
                     json_phoneNumber = phoneNumber t,
                     json_timestamp = timestamp t,
                     json_mpesaReceiptNumber = mpesaReceiptNumber t \<rparr>),
           transactions)"
    by (simp add: mpesa_status_def transactions_get_def)
qed

theorem status_query_witness:
  "keyed twoTransactions \<and> uniqueKeys twoTransactions
   \<and> ''TXN_0'' \<notin> fst ` set twoTransactions
   \<and> mpesa_status ''TXN_0'' twoTransactions
       = ((404, ErrorJson ''Transaction not found''), twoTransactions)
   \<and> (''TXN_1700000300000_p0o9i8u7y'', laterTransaction) \<in> set twoTransactions
   \<and> mpesa_status ''TXN_1700000300000_p0o9i8u7y'' twoTransactions
       = ((200, TransactionJson
                  \<lparr> json_transactionId = ''TXN_1700000300000_p0o9i8u7y'',
                    json_status = PENDING,
                    json_amount = Fin 2500,
                    json_phoneNumber = ''254712345678'',
                    json_timestamp = 1700000300500,
                    json_mpesaReceiptNumber = Undefined \<rparr>),
          twoTransactions)
   \<and> (''TXN_1700000000000_k3j9x2m1q'', paidTransaction) \<in> set twoTransactions
   \<and> mpesa_status ''TXN_1700000000000_k3j9x2m1q'' twoTransactions
       = ((200, TransactionJson
                  \<lparr> json_transactionId = ''TXN_1700000000000_k3j9x2m1q'',
                    json_status = SUCCESS,
                    json_amount = Fin 100,
                    json_phoneNumber = ''254712345678'',
                    json_timestamp = 1700000000500,
                    json_mpesaReceiptNumber = Str ''NLJ7RT61SV'' \<rparr>),
          twoTransactions)"
proof -
  have k: "keyed twoTransactions"
    by (simp add: keyed_def twoTransactions_def laterTransaction_def pendingTransaction_def
        paidTransaction_def)
  have u: "uniqueKeys twoTransactions"
    by (simp add: uniqueKeys_def twoTransactions_def)
  have a: "''TXN_0'' \<notin> fst ` set twoTransactions"
    by (simp add: twoTransactions_def)
  have m: "(''TXN_1700000300000_p0o9i8u7y'', laterTransaction) \<in> set twoTransactions"
    "(''TXN_1700000000000_k3j9x2m1q'', paidTransaction) \<in> set twoTransactions"
    by (simp_all add: twoTransactions_def)
  have f: "transactionId paidTransaction = ''TXN_1700000000000_k3j9x2m1q''"
    "status paidTransaction = SUCCESS" "amount paidTransaction = Fin 100"
    "phoneNumber paidTransaction = ''254712345678''" "timestamp paidTransaction = 1700000000500"
    "mpesaReceiptNumber paidTransaction = Str ''NLJ7RT61SV''"
    "transactionId laterTransaction = ''TXN_1700000300000_p0o9i8u7y''"
    "status laterTransaction = PENDING" "amount laterTransaction = Fin 2500"
    "phoneNumber laterTransaction = ''254712345678''" "timestamp laterTransaction = 1700000300500"
    "mpesaReceiptNumber laterTransaction = Undefined"
    by (simp_all add: paidTransaction_def laterTransaction_def pendingTransaction_def)
  note s = status_query [OF k u]
  from s [of "''TXN_0''", THEN conjunct1, rule_format, OF a]
    s [of "''TXN_1700000300000_p0o9i8u7y''", THEN conjunct2, rule_format, OF m(1)]
    s [of "''TXN_1700000000000_k3j9x2m1q''", THEN conjunct2, rule_format, OF m(2)]
    k u a m
  show ?thesis by (simp add: f)
qed

section \<open>The wizard: how a payment resolves\<close>

lemma strict_eq_Str: "strict_eq v (Str s) \<longleftrightarrow> v = Str s"
  by (cases v) auto

lemma getOptional_Str:
  "getOptional data k = Str s \<Longrightarrow> getProp data k = Inr (Str s)"
  by (auto simp: getOptional_def split: sum.splits)


text \<open>
  C6. Once \<^verbatim>\<open>initiatePayment\<close> has settled: when the response is 2xx and its
  \<^verbatim>\<open>ResponseCode\<close> is the string \<^verbatim>\<open>"0"\<close>, the wizard is on \<^verbatim>\<open>success\<close>; in every
  other case (another response code, a status outside 2xx, a rejected \<^verbatim>\<open>fetch\<close> or a body
  that cannot be read) it is on \<^verbatim>\<open>error\<close>, with the \<^verbatim>\<open>errorMessage\<close> of the server when
  the body has a truthy one, and the generic failure or network-error message otherwise.
  The loading flag is off and the form is as it was.
\<close>

theorem initiatePayment_resolution:
  "(r = FetchResponse True (Some data) \<and> getOptional data ''ResponseCode'' = Str ''0''
      \<longrightarrow> step (initiatePayment r w) = Success)
   \<and> (\<not> (\<exists>d. r = FetchResponse True (Some d) \<and> getOptional d ''ResponseCode'' = Str ''0'')
      \<longrightarrow> step (initiatePayment r w) = Error
        \<and> error (initiatePayment r w) =
            (case r of
               FetchRejected \<Rightarrow> Str ''Network error. Please check your connection and try again.''
             | FetchResponse ok None \<Rightarrow>
                 Str ''Network error. Please check your connection and try again.''
             | FetchResponse ok (Some d) \<Rightarrow>
                 if nullish d
                 then Str ''Network error. Please check your connection and try again.''
                 else if truthy (getOptional d ''errorMessage'') then getOptional d ''errorMessage''
                 else Str ''Payment failed. Please try again.''))
   \<and> loading (initiatePayment r w) = False
   \<and> formData (initiatePayment r w) = formData w"
proof (intro conjI impI)
  assume a: "r = FetchResponse True (Some data) \<and> getOptional data ''ResponseCode'' = Str ''0''"
  then have "getProp data ''ResponseCode'' = Inr (Str ''0'')" by (simp add: getOptional_Str)
  with a show "step (initiatePayment r w) = Success"
    by (simp add: initiatePayment_def)
next
  show "loading (initiatePayment r w) = False"
    by (simp add: initiatePayment_def Let_def)
next
  show "formData (initiatePayment r w) = formData w"
    by (auto simp: initiatePayment_def Let_def networkError_def paymentFailed_def
        split: fetch_result.splits option.splits sum.splits)
next
  assume n: "\<not> (\<exists>d. r = FetchResponse True (Some d) \<and> getOptional d ''ResponseCode'' = Str ''0'')"
  have pf: "\<And>d v. step (paymentFailed d v) = Error"
    by (simp add: paymentFailed_def networkError_def split: sum.splits)
  have pe: "\<And>d v. error (paymentFailed d v) =
     (if nullish d then Str ''Network error. Please check your connection and try again.''
      else if truthy (getOptional d ''errorMessage'') then getOptional d ''errorMessage''
      else Str ''Payment failed. Please try again.'')"
  proof -
    fix d v show "error (paymentFailed d v) =
     (if nullish d then Str ''Network error. Please check your connection and try again.''
      else if truthy (getOptional d ''errorMessage'') then getOptional d ''errorMessage''
      else Str ''Payment failed. Please try again.'')"
      by (cases d) (simp_all add: paymentFailed_def networkError_def nullish_def getOptional_def)
  qed
  have nl: "\<And>d k. getProp d k = Inl TypeError \<longleftrightarrow> nullish d"
  proof -
    fix d k show "getProp d k = Inl TypeError \<longleftrightarrow> nullish d" by (cases d) (simp_all add: nullish_def)
  qed
  have nl2: "\<And>d k e. getProp d k = Inl e \<Longrightarrow> nullish d"
  proof -
    fix d k e show "getProp d k = Inl e \<Longrightarrow> nullish d" by (cases d) (simp_all add: nullish_def)
  qed
  show "step (initiatePayment r w) = Error"
  proof (cases r)
    case FetchRejected
    then show ?thesis by (simp add: initiatePayment_def networkError_def)
  next
    case (FetchResponse ok body)
    show ?thesis
    proof (cases body)
      case None
      then show ?thesis using FetchResponse by (simp add: initiatePayment_def networkError_def)
    next
      case (Some d)
      show ?thesis
      proof (cases ok)
        case False
        then show ?thesis using FetchResponse Some by (simp add: initiatePayment_def pf)
      next
        case True
        then have ne: "getOptional d ''ResponseCode'' \<noteq> Str ''0''"
          using n FetchResponse Some by simp
        show ?thesis
          using FetchResponse Some True ne
          by (cases "getProp d ''ResponseCode''")
             (simp_all add: initiatePayment_def pf networkError_def strict_eq_Str getOptional_def)
      qed
    qed
  qed
  show "error (initiatePayment r w) =
            (case r of
               FetchRejected \<Rightarrow> Str ''Network error. Please check your connection and try again.''
             | FetchResponse ok None \<Rightarrow>
                 Str ''Network error. Please check your connection and try again.''
             | FetchResponse ok (Some d) \<Rightarrow>
                 if nullish d
                 then Str ''Network error. Please check your connection and try again.''
                 else if truthy (getOptional d ''errorMessage'') then getOptional d ''errorMessage''
                 else Str ''Payment failed. Please try again.'')"
  proof (cases r)
    case FetchRejected
    then show ?thesis by (simp add: initiatePayment_def networkError_def)
  next
    case (FetchResponse ok body)
    show ?thesis
    proof (cases body)
      case None
      then show ?thesis using FetchResponse by (simp add: initiatePayment_def networkError_def)
    next
      case (Some d)
      show ?thesis
      proof (cases ok)
        case False
        then show ?thesis using FetchResponse Some by (simp add: initiatePayment_def pe)
      next
        case True
        then have ne: "getOptional d ''ResponseCode'' \<noteq> Str ''0''"
          using n FetchResponse Some by simp
        show ?thesis
        proof (cases "getProp d ''ResponseCode''")
          case (Inl e)
          then show ?thesis using FetchResponse Some True nl2 [OF Inl]
            by (simp add: initiatePayment_def networkError_def)
        next
          case (Inr c)
          then show ?thesis using FetchResponse Some True ne
            by (simp add: initiatePayment_def pe strict_eq_Str getOptional_def)
        qed
      qed
    qed
  qed
qed

theorem initiatePayment_resolution_witness:
  "step (initiatePayment (FetchResponse True (Some acceptedResponse)) initialWizard) = Success
   \<and> step (initiatePayment (FetchResponse False (Some rejectedResponse)) initialWizard) = Error
   \<and> error (initiatePayment (FetchResponse False (Some rejectedResponse)) initialWizard)
       = Str ''Invalid amount''
   \<and> step (initiatePayment FetchRejected initialWizard) = Error
   \<and> error (initiatePayment FetchRejected initialWizard)
       = Str ''Network error. Please check your connection and try again.''
   \<and> step (initiatePayment (FetchResponse True (Some (Obj []))) initialWizard) = Error
   \<and> error (initiatePayment (FetchResponse True (Some (Obj []))) initialWizard)
       = Str ''Payment failed. Please try again.''"
proof -
  have a: "getOptional acceptedResponse ''ResponseCode'' = Str ''0''"
    by (simp add: acceptedResponse_def getOptional_def)
  have r: "getOptional rejectedResponse ''errorMessage'' = Str ''Invalid amount''"
    "\<not> nullish rejectedResponse"
    by (simp_all add: rejectedResponse_def getOptional_def nullish_def)
  have e: "getOptional (Obj []) ''ResponseCode'' = Undefined" "getOptional (Obj []) ''errorMessage'' = Undefined"
    "\<not> nullish (Obj [])"
    by (simp_all add: getOptional_def nullish_def)
  show ?thesis
    using initiatePayment_resolution [of "FetchResponse True (Some acceptedResponse)" acceptedResponse initialWizard]
      initiatePayment_resolution [of "FetchResponse False (Some rejectedResponse)" rejectedResponse initialWizard]
      initiatePayment_resolution [of FetchRejected Undefined initialWizard]
      initiatePayment_resolution [of "FetchResponse True (Some (Obj []))" "Obj []" initialWizard]
    by (simp add: a r e)
qed

section \<open>The wizard: the PIN stays on the client\<close>

lemma pinApart_refl: "pinApart w w"
  by (simp add: pinApart_def)

lemma initiatePayment_pinApart:
  "pinApart w w' \<Longrightarrow> pinApart (initiatePayment r w) (initiatePayment r w')"
  by (auto simp: pinApart_def initiatePayment_def Let_def networkError_def paymentFailed_def
      split: fetch_result.splits option.splits sum.splits)

lemma initiateRequest_pinApart:
  "pinApart w w' \<Longrightarrow> initiateRequest now w = initiateRequest now w'"
  by (simp add: pinApart_def initiateRequest_def)

lemma pinApart_error: "pinApart w w' \<Longrightarrow> pinApart (w\<lparr>error := e\<rparr>) (w'\<lparr>error := e\<rparr>)"
  by (simp add: pinApart_def)

lemma handlePinSubmit_pinApart:
  assumes "pinApart w w'"
  shows "pinApart (fst (handlePinSubmit now r w)) (fst (handlePinSubmit now r w'))
         \<and> snd (handlePinSubmit now r w) = snd (handlePinSubmit now r w')"
proof -
  have l: "(length (formPin (formData w)) = 4) = (length (formPin (formData w')) = 4)"
    using assms by (simp add: pinApart_def)
  show ?thesis
    using l initiatePayment_pinApart [OF pinApart_error [OF assms]]
      initiateRequest_pinApart [OF pinApart_error [OF assms]] pinApart_error [OF assms]
    by (simp add: handlePinSubmit_def)
qed

lemma fire_pinApart:
  assumes "pinApart w w'" and "samePinApart e e'"
  shows "pinApart (fst (fire e w)) (fst (fire e' w')) \<and> snd (fire e w) = snd (fire e' w')"
proof (cases e)
  case (ChangePin p)
  then obtain q where e': "e' = ChangePin q"
    and pq: "(length (removeNonDigits p) = 4) = (length (removeNonDigits q) = 4)"
    using assms(2) by (cases e') auto
  then show ?thesis using assms(1) ChangePin e'
    by (auto simp: pinApart_def clearError_def)
next
  case (SubmitPin now r)
  then have e': "e' = e" using assms(2) by simp
  show ?thesis using handlePinSubmit_pinApart [OF assms(1), of now r] assms(1) SubmitPin e'
    by (auto simp: pinApart_def)
next
  case (ChangeAmount v)
  then have "e' = e" using assms(2) by simp
  then show ?thesis using assms(1) ChangeAmount by (auto simp: pinApart_def clearError_def)
next
  case SubmitAmount
  then have "e' = e" using assms(2) by simp
  then show ?thesis using assms(1) SubmitAmount by (auto simp: pinApart_def handleAmountSubmit_def)
next
  case (ChangePhone v)
  then have "e' = e" using assms(2) by simp
  then show ?thesis using assms(1) ChangePhone by (auto simp: pinApart_def clearError_def)
next
  case SubmitPhone
  then have "e' = e" using assms(2) by simp
  then show ?thesis using assms(1) SubmitPhone by (auto simp: pinApart_def handlePhoneSubmit_def)
next
  case BackToAmount
  then have "e' = e" using assms(2) by simp
  then show ?thesis using assms(1) BackToAmount by (auto simp: pinApart_def)
next
  case BackToPhone
  then have "e' = e" using assms(2) by simp
  then show ?thesis using assms(1) BackToPhone by (auto simp: pinApart_def)
next
  case TryAgain
  then have "e' = e" using assms(2) by simp
  then show ?thesis using assms(1) TryAgain by (auto simp: pinApart_def)
next
  case StartOver
  then have "e' = e" using assms(2) by simp
  then show ?thesis using assms(1) StartOver by (auto simp: pinApart_def resetForm_def)
qed

lemma run_Cons:
  "run (e # es) w =
     (fst (run es (fst (fire e w))), snd (fire e w) @ snd (run es (fst (fire e w))))"
  by (simp split: prod.splits)

lemma run_pinApart:
  "list_all2 samePinApart es es' \<Longrightarrow> pinApart w w' \<Longrightarrow>
     pinApart (fst (run es w)) (fst (run es' w')) \<and> snd (run es w) = snd (run es' w')"
proof (induction es es' arbitrary: w w' rule: list_all2_induct)
  case Nil
  then show ?case by simp
next
  case (Cons e es e' es')
  from fire_pinApart [OF Cons.prems Cons.hyps(1)]
  have f: "pinApart (fst (fire e w)) (fst (fire e' w'))" and s: "snd (fire e w) = snd (fire e' w')"
    by simp_all
  from Cons.IH [OF f] s show ?case
    by (simp only: run_Cons fst_conv snd_conv)
qed

lemma samePinApart_blankPin: "samePinApart e (blankPin e)"
  by (cases e) (simp_all add: blankPin_def removeNonDigits_def isDigit_def)

lemma blankPin_all: "list_all2 samePinApart es (map blankPin es)"
  by (induction es) (simp_all add: samePinApart_blankPin)

text \<open>
  Every request of a run is built from an amount and a phone number typed in that run
  and a clock value read in it.
\<close>

lemma typed_Cons:
  "amountsTyped (e # es) = (case e of ChangeAmount v \<Rightarrow> [v] | _ \<Rightarrow> []) @ amountsTyped es"
  "phonesTyped (e # es) = (case e of ChangePhone v \<Rightarrow> [v] | _ \<Rightarrow> []) @ phonesTyped es"
  "clocksRead (e # es) = (case e of SubmitPin now r \<Rightarrow> [now] | _ \<Rightarrow> []) @ clocksRead es"
  by (simp_all add: amountsTyped_def phonesTyped_def clocksRead_def)

lemma initiatePayment_form:
  "formData (initiatePayment r w) = formData w
   \<and> step (initiatePayment r w) \<in> {Processing, Success, Error}"
  by (auto simp: initiatePayment_def Let_def networkError_def paymentFailed_def
      split: fetch_result.splits option.splits sum.splits)

lemma canonicalPhone_nonempty: "canonicalPhone p \<Longrightarrow> p \<noteq> []"
  by (auto simp: canonicalPhone_def)

lemma fire_typedSoFar:
  assumes "typedSoFar as ps w"
  shows "typedSoFar (as @ amountsTyped [e]) (ps @ phonesTyped [e]) (fst (fire e w))"
proof (cases e)
  case (SubmitPin now r)
  show ?thesis using assms initiatePayment_form [of r "w\<lparr>error := Str []\<rparr>"]
    by (auto simp: SubmitPin typedSoFar_def amountsTyped_def phonesTyped_def handlePinSubmit_def)
next
  case SubmitPhone
  show ?thesis using assms canonicalPhone_nonempty [of "formPhoneNumber (formData w)"]
    by (auto simp: SubmitPhone typedSoFar_def amountsTyped_def phonesTyped_def handlePhoneSubmit_def)
qed (use assms in \<open>auto simp: typedSoFar_def amountsTyped_def phonesTyped_def clearError_def
      handleAmountSubmit_def resetForm_def\<close>)

lemma fire_sent:
  assumes "typedSoFar as ps w"
  shows "set (snd (fire e w))
         \<subseteq> {pinFreeRequest a p now | a p now. a \<in> set as \<and> p \<in> set ps \<and> now \<in> set (clocksRead [e])}"
proof (cases e)
  case (SubmitPin now r)
  show ?thesis using assms
    by (auto simp: SubmitPin typedSoFar_def clocksRead_def handlePinSubmit_def initiateRequest_def
        pinFreeRequest_def)
qed (simp_all)

lemma set_pinFreeRequests:
  "set (pinFreeRequests es)
   = {pinFreeRequest a p now | a p now.
        a \<in> set (amountsTyped es) \<and> p \<in> set (phonesTyped es) \<and> now \<in> set (clocksRead es)}"
  by (auto simp: pinFreeRequests_def)

lemma typed_append:
  "amountsTyped (e # es) = amountsTyped [e] @ amountsTyped es"
  "phonesTyped (e # es) = phonesTyped [e] @ phonesTyped es"
  "clocksRead (e # es) = clocksRead [e] @ clocksRead es"
  by (simp_all add: amountsTyped_def phonesTyped_def clocksRead_def)

lemma run_sent:
  "typedSoFar as ps w \<Longrightarrow>
     set (snd (run es w))
       \<subseteq> {pinFreeRequest a p now | a p now.
            a \<in> set (as @ amountsTyped es) \<and> p \<in> set (ps @ phonesTyped es)
            \<and> now \<in> set (clocksRead es)}"
proof (induction es arbitrary: as ps w)
  case Nil
  show ?case by simp
next
  case (Cons e es)
  have a: "set (snd (fire e w))
         \<subseteq> {pinFreeRequest a p now | a p now. a \<in> set as \<and> p \<in> set ps \<and> now \<in> set (clocksRead [e])}"
    by (rule fire_sent [OF Cons.prems])
  have b: "set (snd (run es (fst (fire e w))))
       \<subseteq> {pinFreeRequest a p now | a p now.
            a \<in> set ((as @ amountsTyped [e]) @ amountsTyped es)
            \<and> p \<in> set ((ps @ phonesTyped [e]) @ phonesTyped es)
            \<and> now \<in> set (clocksRead es)}"
    by (rule Cons.IH [OF fire_typedSoFar [OF Cons.prems]])
  have s: "snd (run (e # es) w) = snd (fire e w) @ snd (run es (fst (fire e w)))"
    by (simp only: run_Cons snd_conv)
  show ?case
  proof
    fix q
    assume "q \<in> set (snd (run (e # es) w))"
    then consider "q \<in> set (snd (fire e w))" | "q \<in> set (snd (run es (fst (fire e w))))"
      unfolding s by auto
    then show "q \<in> {pinFreeRequest a p now | a p now.
            a \<in> set (as @ amountsTyped (e # es)) \<and> p \<in> set (ps @ phonesTyped (e # es))
            \<and> now \<in> set (clocksRead (e # es))}"
    proof cases
      case 1
      with a obtain x y n where "q = pinFreeRequest x y n" "x \<in> set as" "y \<in> set ps"
        "n \<in> set (clocksRead [e])" by blast
      then show ?thesis unfolding typed_append [of e es] by auto
    next
      case 2
      with b obtain x y n where "q = pinFreeRequest x y n"
        "x \<in> set ((as @ amountsTyped [e]) @ amountsTyped es)"
        "y \<in> set ((ps @ phonesTyped [e]) @ phonesTyped es)"
        "n \<in> set (clocksRead es)" by blast
      then show ?thesis unfolding typed_append [of e es] by auto
    qed
  qed
qed

lemma typedSoFar_initial: "typedSoFar [] [] initialWizard"
  by (simp add: typedSoFar_def initialWizard_def)

lemma run_pinFree: "set (snd (run es initialWizard)) \<subseteq> set (pinFreeRequests es)"
  using run_sent [OF typedSoFar_initial, of es] by (simp only: set_pinFreeRequests append_Nil)

lemma parseFloatStr_100: "parseFloatStr ''100'' = Fin 100"
  by (simp add: literal_defs toDouble_100)

lemma typing_1234:
  "run (typedSession [''1'', ''12'', ''123'', ''1234'']) initialWizard =
     (\<lparr> step = Success,
        formData = \<lparr> formAmount = ''100'', formPhoneNumber = ''254712345678'', formPin = ''1234'' \<rparr>,
        loading = False, error = Str [] \<rparr>,
      [\<lparr> requestUrl = ''/api/mpesa/initiate'', requestMethod = ''POST'',
         requestHeaders = [(''Content-Type'', ''application/json'')],
         requestBody =
           Obj [(''amount'', Str ''100''), (''phoneNumber'', Str ''254712345678''),
                (''accountReference'', Str ''ORDER_1700000000000''),
                (''transactionDesc'', Str ''Payment for services'')] \<rparr>])"
  by (simp add: typedSession_def initialWizard_def clearError_def handleAmountSubmit_def
      parseFloatStr_100 handlePhoneSubmit_def canonicalPhone_def isDigit_def
      removeNonDigits_def handlePinSubmit_def initiatePayment_def initiateRequest_def
      acceptedResponse_def digits_id)

lemma typing_9876:
  "fst (run (typedSession [''9'', ''98'', ''987'', ''9876'']) initialWizard) =
     \<lparr> step = Success,
        formData = \<lparr> formAmount = ''100'', formPhoneNumber = ''254712345678'', formPin = ''9876'' \<rparr>,
        loading = False, error = Str [] \<rparr>"
  by (simp add: typedSession_def initialWizard_def clearError_def handleAmountSubmit_def
      parseFloatStr_100 handlePhoneSubmit_def canonicalPhone_def isDigit_def
      removeNonDigits_def handlePinSubmit_def initiatePayment_def initiateRequest_def
      acceptedResponse_def digits_id)

lemma typing_requests:
  "pinFreeRequests (typedSession [''1'', ''12'', ''123'', ''1234'']) =
     [\<lparr> requestUrl = ''/api/mpesa/initiate'', requestMethod = ''POST'',
        requestHeaders = [(''Content-Type'', ''application/json'')],
        requestBody =
          Obj [(''amount'', Str ''100''), (''phoneNumber'', Str ''254712345678''),
               (''accountReference'', Str ''ORDER_1700000000000''),
               (''transactionDesc'', Str ''Payment for services'')] \<rparr>]"
  by (simp add: pinFreeRequests_def typedSession_def amountsTyped_def phonesTyped_def
      clocksRead_def pinFreeRequest_def digits_id)

text \<open>
  C10. Two runs of the wizard that differ only in the values the PIN input takes (a
  complete PIN, of four digits, where the other run has one; anything else, a PIN half
  typed included, where the other run has none) send the same requests. So a run sends
  what it would send with every digit of the PIN replaced by a zero. Each request sent
  is the POST whose body has the keys \<^verbatim>\<open>amount\<close>, \<^verbatim>\<open>phoneNumber\<close>,
  \<^verbatim>\<open>accountReference\<close> and \<^verbatim>\<open>transactionDesc\<close> and no other, with an amount and a
  phone number typed into their inputs in that run and a reference made of a clock value
  read in that run.
\<close>

theorem pin_not_sent:
  "list_all2 samePinApart es es' \<Longrightarrow>
     snd (run es initialWizard) = snd (run es' initialWizard)
     \<and> snd (run es initialWizard) = snd (run (map blankPin es) initialWizard)
     \<and> set (snd (run es initialWizard)) \<subseteq> set (pinFreeRequests es)"
  using run_pinApart [of es es' initialWizard initialWizard]
    run_pinApart [OF blankPin_all, of initialWizard initialWizard es] run_pinFree [of es]
  by (simp add: pinApart_refl)

theorem pin_not_sent_witness:
  "list_all2 samePinApart (typedSession [''1'', ''12'', ''123'', ''1234''])
                          (typedSession [''9'', ''98'', ''987'', ''9876''])
   \<and> snd (run (typedSession [''1'', ''12'', ''123'', ''1234'']) initialWizard)
       = snd (run (typedSession [''9'', ''98'', ''987'', ''9876'']) initialWizard)
   \<and> snd (run (typedSession [''1'', ''12'', ''123'', ''1234'']) initialWizard)
       = snd (run (map blankPin (typedSession [''1'', ''12'', ''123'', ''1234''])) initialWizard)
   \<and> snd (run (typedSession [''1'', ''12'', ''123'', ''1234'']) initialWizard) =
       [\<lparr> requestUrl = ''/api/mpesa/initiate'', requestMethod = ''POST'',
          requestHeaders = [(''Content-Type'', ''application/json'')],
          requestBody =
            Obj [(''amount'', Str ''100''), (''phoneNumber'', Str ''254712345678''),
                 (''accountReference'', Str ''ORDER_1700000000000''),
                 (''transactionDesc'', Str ''Payment for services'')] \<rparr>]
   \<and> set (snd (run (typedSession [''1'', ''12'', ''123'', ''1234'']) initialWizard))
       \<subseteq> set (pinFreeRequests (typedSession [''1'', ''12'', ''123'', ''1234'']))
   \<and> pinFreeRequests (typedSession [''1'', ''12'', ''123'', ''1234'']) =
       [\<lparr> requestUrl = ''/api/mpesa/initiate'', requestMethod = ''POST'',
          requestHeaders = [(''Content-Type'', ''application/json'')],
          requestBody =
            Obj [(''amount'', Str ''100''), (''phoneNumber'', Str ''254712345678''),
                 (''accountReference'', Str ''ORDER_1700000000000''),
                 (''transactionDesc'', Str ''Payment for services'')] \<rparr>]
   \<and> formPin (formData (fst (run (typedSession [''1'', ''12'', ''123'', ''1234'']) initialWizard)))
       = ''1234''
   \<and> formPin (formData (fst (run (typedSession [''9'', ''98'', ''987'', ''9876'']) initialWizard)))
       = ''9876''"
proof -
  have l: "list_all2 samePinApart (typedSession [''1'', ''12'', ''123'', ''1234''])
                          (typedSession [''9'', ''98'', ''987'', ''9876''])"
    by (simp add: typedSession_def removeNonDigits_def isDigit_def)
  note p = pin_not_sent [OF l]
  have a: "formPin (formData (fst (run (typedSession [''1'', ''12'', ''123'', ''1234'']) initialWizard)))
       = ''1234''"
    by (simp add: typing_1234)
  have b: "formPin (formData (fst (run (typedSession [''9'', ''98'', ''987'', ''9876'']) initialWizard)))
       = ''9876''"
    by (simp add: typing_9876)
  show ?thesis
    apply (intro conjI)
           apply (rule l)
          apply (rule p [THEN conjunct1])
         apply (rule p [THEN conjunct2, THEN conjunct1])
        apply (simp only: typing_1234 snd_conv)
       apply (rule p [THEN conjunct2, THEN conjunct2])
      apply (rule typing_requests)
     apply (rule a)
    apply (rule b)
    done
qed

section \<open>Initiation: validation\<close>

text \<open>A request that validation accepts has an amount that \<open>parseFloat\<close> can read.\<close>

lemma valid_amount:
  assumes "validatePaymentRequest body = Inr v" and "errors v = []"
  shows "\<exists>a x. getProp body ''amount'' = Inr a \<and> parseFloat a = Inr x \<and> invalidAmount a = Inr False"
proof -
  obtain a where a: "getProp body ''amount'' = Inr a"
    using assms(1) by (auto simp: validatePaymentRequest_def split: sum.splits)
  obtain b where b: "invalidAmount a = Inr b"
    using assms(1) a by (auto simp: validatePaymentRequest_def split: sum.splits)
  have "\<not> b"
    using assms a b by (auto simp: validatePaymentRequest_def split: sum.splits if_splits)
  with b have f: "invalidAmount a = Inr False" by simp
  then obtain x where "parseFloat a = Inr x"
    by (auto simp: invalidAmount_def split: if_splits sum.splits bool.splits)
  with a f show ?thesis by blast
qed


text \<open>
  When \<^verbatim>\<open>validatePaymentRequest\<close> returns a list of errors that is not empty, the handler
  answers 400 with the errors joined by a comma, calls nothing and stores nothing. The
  list holds one entry for each check that failed, in the order of the checks.
\<close>

lemma validation_failure:
  assumes "validatePaymentRequest body = Inr v" and "errors v \<noteq> []"
  shows "mpesa_initiate cfg env body transactions =
           ((400, Obj [(''ResponseCode'', Str ''1''),
                       (''errorMessage'', Str (join '', '' (errors v)))]),
            transactions, [])"
proof -
  obtain a where a: "getProp body ''amount'' = Inr a"
    using assms(1) by (auto simp: validatePaymentRequest_def split: sum.splits)
  show ?thesis using assms a
    by (simp add: mpesa_initiate_def initiateTry_def)
qed

lemma validation_errors:
  assumes "getProp body ''amount'' = Inr a" and "invalidAmount a = Inr badAmount"
    and "getOptional body ''phoneNumber'' = Str s"
    and "invalidReference (getOptional body ''accountReference'') = Inr badReference"
  shows "validatePaymentRequest body =
           Inr \<lparr> errors = (if badAmount then [''Invalid amount''] else [])
                       @ (if \<not> canonicalPhone (formatPhoneNumber s)
                          then [''Invalid phone number format''] else [])
                       @ (if badReference then [''Invalid account reference''] else []),
                 formattedPhone = formatPhoneNumber s \<rparr>"
  using assms by (simp add: validatePaymentRequest_def formatPhoneNumberOf_def)


lemma validate_rejectedRequest:
  "validatePaymentRequest rejectedRequest =
     Inr \<lparr> errors = [''Invalid amount'', ''Invalid phone number format'', ''Invalid account reference''],
           formattedPhone = ''25412345'' \<rparr>"
  by (simp add: validatePaymentRequest_def rejectedRequest_def invalidAmount_def isNaN_def ToNumber_def
      parseFloat_def literal_defs toDouble_def formatPhoneNumberOf_def formatPhoneNumber_def
      removeNonDigits_def canonicalPhone_def invalidReference_def getOptional_def)


theorem validation_failure_witness:
  "mpesa_initiate (MPESA_CONFIG sandboxEnv) acceptedRun rejectedRequest
     [(''TXN_1700000000000_k3j9x2m1q'', paidTransaction)] =
     ((400, Obj [(''ResponseCode'', Str ''1''),
                 (''errorMessage'',
                    Str ''Invalid amount, Invalid phone number format, Invalid account reference'')]),
      [(''TXN_1700000000000_k3j9x2m1q'', paidTransaction)], [])"
  using validation_failure [OF validate_rejectedRequest, of "MPESA_CONFIG sandboxEnv" acceptedRun
      "[(''TXN_1700000000000_k3j9x2m1q'', paidTransaction)]"]
  by simp


text \<open>
  C3 at the empty body. The amount and the account reference are absent, so two of the
  checks of the claim fail; the phone number is absent too, and \<^verbatim>\<open>formatPhoneNumber\<close>
  throws on it. The handler answers 500 with the generic message, not 400 with the list
  of the failed checks. Nothing is called and nothing is stored.
\<close>

theorem initiate_empty_body:
  "getOptional (Obj []) ''amount'' = Undefined
   \<and> invalidAmount Undefined = Inr True
   \<and> invalidReference (getOptional (Obj []) ''accountReference'') = Inr True
   \<and> formatPhoneNumberOf (getOptional (Obj []) ''phoneNumber'') = Inl TypeError
   \<and> mpesa_initiate cfg env (Obj []) transactions =
       ((500, Obj [(''ResponseCode'', Str ''1''),
                   (''errorMessage'', Str ''Payment initiation failed'')]),
        transactions, [])"
  by (simp add: mpesa_initiate_def initiateTry_def validatePaymentRequest_def invalidAmount_def
      invalidReference_def formatPhoneNumberOf_def getOptional_def errorMessageOf_def)


section \<open>Initiation: failures of the gateway\<close>

text \<open>
  C4, as the code has it. A request that passes validation and whose gateway interaction
  fails is answered 500 with \<^verbatim>\<open>ResponseCode "1"\<close>, and the store is unchanged. When the
  access-token exchange fails, the message is always the generic one:
  \<^verbatim>\<open>getAccessToken\<close> replaces what the gateway answered by an error of its own. When the
  push is rejected, the message is the \<^verbatim>\<open>errorMessage\<close> of the answer of the gateway when
  that is truthy, and the generic one otherwise (no answer at all included).
\<close>

theorem initiate_gateway_failure:
  assumes "validatePaymentRequest body = Inr v" and "errors v = []"
  shows "(tokenResult env = Rejected g \<longrightarrow>
            mpesa_initiate cfg env body transactions =
              ((500, Obj [(''ResponseCode'', Str ''1''),
                          (''errorMessage'', Str ''Payment initiation failed'')]),
               transactions, [tokenRequest cfg]))
       \<and> (getAccessToken (tokenResult env) = Inr token \<and> \<not> toStringThrows token
            \<and> pushResult env = Rejected r \<longrightarrow>
            fst (mpesa_initiate cfg env body transactions) =
              (500, Obj [(''ResponseCode'', Str ''1''),
                         (''errorMessage'',
                            (case r of
                               None \<Rightarrow> Str ''Payment initiation failed''
                             | Some answer \<Rightarrow>
                                 if truthy (getOptional answer ''errorMessage'')
                                 then getOptional answer ''errorMessage''
                                 else Str ''Payment initiation failed''))])
            \<and> fst (snd (mpesa_initiate cfg env body transactions)) = transactions)"
proof -
  obtain a x where a: "getProp body ''amount'' = Inr a" and x: "parseFloat a = Inr x"
    using valid_amount [OF assms] by blast
  show ?thesis
  proof (intro conjI impI)
    assume "tokenResult env = Rejected g"
    then show "mpesa_initiate cfg env body transactions =
              ((500, Obj [(''ResponseCode'', Str ''1''),
                          (''errorMessage'', Str ''Payment initiation failed'')]),
               transactions, [tokenRequest cfg])"
      using assms a
      by (simp add: mpesa_initiate_def initiateTry_def getAccessToken_def errorMessageOf_def Let_def)
  next
    assume t: "getAccessToken (tokenResult env) = Inr token \<and> \<not> toStringThrows token
            \<and> pushResult env = Rejected r"
    then show "fst (mpesa_initiate cfg env body transactions) =
              (500, Obj [(''ResponseCode'', Str ''1''),
                         (''errorMessage'',
                            (case r of
                               None \<Rightarrow> Str ''Payment initiation failed''
                             | Some answer \<Rightarrow>
                                 if truthy (getOptional answer ''errorMessage'')
                                 then getOptional answer ''errorMessage''
                                 else Str ''Payment initiation failed''))])"
      using assms a x
      by (cases r) (simp_all add: mpesa_initiate_def initiateTry_def errorMessageOf_def Let_def)
    show "fst (snd (mpesa_initiate cfg env body transactions)) = transactions"
      using assms a x t
      by (simp add: mpesa_initiate_def initiateTry_def Let_def)
  qed
qed

theorem initiate_gateway_failure_witness:
  "validatePaymentRequest paymentRequest = Inr \<lparr>errors = [], formattedPhone = ''254712345678''\<rparr>
   \<and> tokenResult tokenRejectedRun = Rejected (Some tokenRejection)
   \<and> mpesa_initiate (MPESA_CONFIG sandboxEnv) tokenRejectedRun paymentRequest
        [(''TXN_1700000000000_k3j9x2m1q'', paidTransaction)] =
       ((500, Obj [(''ResponseCode'', Str ''1''),
                   (''errorMessage'', Str ''Payment initiation failed'')]),
        [(''TXN_1700000000000_k3j9x2m1q'', paidTransaction)],
        [tokenRequest (MPESA_CONFIG sandboxEnv)])
   \<and> getAccessToken (tokenResult pushRejectedRun) = Inr (Str ''c9SQxWWhmdVRlyh0zh8gZDTkubVF'')
   \<and> pushResult pushRejectedRun = Rejected (Some pushRejection)
   \<and> fst (mpesa_initiate (MPESA_CONFIG sandboxEnv) pushRejectedRun paymentRequest
             [(''TXN_1700000000000_k3j9x2m1q'', paidTransaction)]) =
       (500, Obj [(''ResponseCode'', Str ''1''),
                  (''errorMessage'', Str ''Bad Request - Invalid PhoneNumber'')])
   \<and> fst (snd (mpesa_initiate (MPESA_CONFIG sandboxEnv) pushRejectedRun paymentRequest
                  [(''TXN_1700000000000_k3j9x2m1q'', paidTransaction)])) =
       [(''TXN_1700000000000_k3j9x2m1q'', paidTransaction)]"
proof -
  have v: "errors \<lparr>errors = [], formattedPhone = ''254712345678''\<rparr> = []" by simp
  have t: "tokenResult tokenRejectedRun = Rejected (Some tokenRejection)"
    by (simp add: tokenRejectedRun_def)
  have p: "getAccessToken (tokenResult pushRejectedRun) = Inr (Str ''c9SQxWWhmdVRlyh0zh8gZDTkubVF'')"
    "pushResult pushRejectedRun = Rejected (Some pushRejection)"
    by (simp_all add: pushRejectedRun_def acceptedRun_def getAccessToken_def)
  have m: "getOptional pushRejection ''errorMessage'' = Str ''Bad Request - Invalid PhoneNumber''"
    by (simp add: pushRejection_def getOptional_def)
  show ?thesis
    using initiate_gateway_failure [OF validate_paymentRequest v,
        of tokenRejectedRun "Some tokenRejection" "MPESA_CONFIG sandboxEnv"
           "[(''TXN_1700000000000_k3j9x2m1q'', paidTransaction)]"]
      initiate_gateway_failure [OF validate_paymentRequest v,
        of pushRejectedRun _ "MPESA_CONFIG sandboxEnv"
           "[(''TXN_1700000000000_k3j9x2m1q'', paidTransaction)]"
           "Str ''c9SQxWWhmdVRlyh0zh8gZDTkubVF''" "Some pushRejection"]
    by (simp add: validate_paymentRequest t p m)
qed


text \<open>
  C4 as stated fails when the access-token exchange is refused with an answer that
  carries an \<^verbatim>\<open>errorMessage\<close>: the response has the generic message.
\<close>

theorem token_message_dropped:
  "validatePaymentRequest paymentRequest = Inr \<lparr>errors = [], formattedPhone = ''254712345678''\<rparr>
   \<and> tokenResult tokenRejectedRun = Rejected (Some tokenRejection)
   \<and> getOptional tokenRejection ''errorMessage'' = Str ''Invalid Authentication passed''
   \<and> mpesa_initiate (MPESA_CONFIG sandboxEnv) tokenRejectedRun paymentRequest [] =
       ((500, Obj [(''ResponseCode'', Str ''1''),
                   (''errorMessage'', Str ''Payment initiation failed'')]),
        [], [tokenRequest (MPESA_CONFIG sandboxEnv)])"
proof -
  have amt: "getProp paymentRequest ''amount'' = Inr (Str ''100'')"
    by (simp add: paymentRequest_def)
  have "mpesa_initiate (MPESA_CONFIG sandboxEnv) tokenRejectedRun paymentRequest [] =
       ((500, Obj [(''ResponseCode'', Str ''1''),
                   (''errorMessage'', Str ''Payment initiation failed'')]),
        [], [tokenRequest (MPESA_CONFIG sandboxEnv)])"
    unfolding mpesa_initiate_def initiateTry_def amt
    by (simp add: validate_paymentRequest tokenRejectedRun_def getAccessToken_def
        errorMessageOf_def Let_def)
  then show ?thesis
    by (simp add: validate_paymentRequest tokenRejectedRun_def tokenRejection_def getOptional_def)
qed


section \<open>Initiation: the payload of the push\<close>

text \<open>
  Whenever a push is submitted, its \<^verbatim>\<open>Amount\<close> is \<^verbatim>\<open>Math.round(parseFloat(amount))\<close>
  and \<^verbatim>\<open>PartyA\<close> and \<^verbatim>\<open>PhoneNumber\<close> are the normalised phone number, which is
  canonical. For an amount written with decimal digits only, of a value from 1 to below
  \<open>2^53\<close>, \<^verbatim>\<open>Amount\<close> is that integer.
\<close>

lemma push_payload:
  assumes "StkPushRequest url p token \<in> set (snd (snd (mpesa_initiate cfg env body transactions)))"
  shows "\<exists>a s. getProp body ''amount'' = Inr a \<and> getOptional body ''phoneNumber'' = Str s
           \<and> Amount p = Math_round (parseFloatV a)
           \<and> PartyA p = formatPhoneNumber s \<and> PhoneNumber p = formatPhoneNumber s
           \<and> canonicalPhone (formatPhoneNumber s)"
proof -
  have c: "snd (snd (mpesa_initiate cfg env body transactions)) = snd (snd (initiateTry cfg env body transactions))"
    by (simp add: mpesa_initiate_def split: prod.splits sum.splits)
  from assms obtain a where a: "getProp body ''amount'' = Inr a"
    unfolding c by (cases "getProp body ''amount''") (auto simp: initiateTry_def)
  from assms a obtain v where v: "validatePaymentRequest body = Inr v"
    unfolding c by (cases "validatePaymentRequest body") (auto simp: initiateTry_def)
  from assms a v have e: "errors v = []"
    unfolding c by (cases "errors v") (auto simp: initiateTry_def)
  obtain ph where ph: "formatPhoneNumberOf (getOptional body ''phoneNumber'') = Inr ph"
    using v a by (auto simp: validatePaymentRequest_def split: sum.splits)
  then obtain s where s: "getOptional body ''phoneNumber'' = Str s" and phs: "ph = formatPhoneNumber s"
    by (auto simp: formatPhoneNumberOf_def split: jsval.splits)
  have fp: "formattedPhone v = formatPhoneNumber s" and can: "canonicalPhone (formatPhoneNumber s)"
    using v a ph phs e by (auto simp: validatePaymentRequest_def split: sum.splits if_splits)
  obtain x where x: "parseFloat a = Inr x"
    using valid_amount [OF v e] a by auto
  then have xv: "x = parseFloatV a" by (auto simp: parseFloat_def split: if_splits)
  have "Amount p = Math_round x \<and> PartyA p = formattedPhone v \<and> PhoneNumber p = formattedPhone v"
    using assms a v e x unfolding c
    by (auto simp: initiateTry_def Let_def tokenRequest_def
        split: sum.splits axios_result.splits if_splits)
  then show ?thesis using a s fp can xv by auto
qed

theorem push_payload_witness:
  "(\<exists>url p token.
      StkPushRequest url p token
        \<in> set (snd (snd (mpesa_initiate (MPESA_CONFIG sandboxEnv) acceptedRun paymentRequest [])))
      \<and> Amount p = Fin 100 \<and> PartyA p = ''254712345678'' \<and> PhoneNumber p = ''254712345678'')
   \<and> getProp paymentRequest ''amount'' = Inr (Str ''100'')
   \<and> getOptional paymentRequest ''phoneNumber'' = Str ''0712345678''
   \<and> Math_round (parseFloatV (Str ''100'')) = Fin 100
   \<and> formatPhoneNumber ''0712345678'' = ''254712345678''"
proof -
  have r: "acceptedRun\<lparr>idSuffix := ''k3j9x2m1q''\<rparr> = acceptedRun" by (simp add: acceptedRun_def)
  define p where "p = \<lparr> BusinessShortCode = ''174379'',
           Password = generatePassword (MPESA_CONFIG sandboxEnv) ''20231114221320'',
           Timestamp = ''20231114221320'',
           TransactionType = ''CustomerPayBillOnline'',
           Amount = Fin 100,
           PartyA = ''254712345678'',
           PartyB = ''174379'',
           PhoneNumber = ''254712345678'',
           CallBackURL = Some ''https://example.com/api/mpesa/callback'',
           AccountReference = Str ''ORDER_1700000000000'',
           TransactionDesc = Str ''Payment for services'' \<rparr>"
  have m: "StkPushRequest ''https://sandbox.safaricom.co.ke/mpesa/stkpush/v1/processrequest'' p
             (Str ''c9SQxWWhmdVRlyh0zh8gZDTkubVF'')
           \<in> set (snd (snd (mpesa_initiate (MPESA_CONFIG sandboxEnv) acceptedRun paymentRequest [])))"
    using initiate_accepted [of "''k3j9x2m1q''" "[]"] unfolding r p_def by simp
  have f: "Amount p = Fin 100" "PartyA p = ''254712345678''" "PhoneNumber p = ''254712345678''"
    by (simp_all add: p_def)
  have g: "getProp paymentRequest ''amount'' = Inr (Str ''100'')"
    "getOptional paymentRequest ''phoneNumber'' = Str ''0712345678''"
    by (simp_all add: paymentRequest_def getOptional_def)
  from push_payload [OF m] g f have
    "Math_round (parseFloatV (Str ''100'')) = Fin 100 \<and> formatPhoneNumber ''0712345678'' = ''254712345678''"
    by auto
  with m f g show ?thesis by blast
qed


lemma digit_not_space: "isDigit c \<Longrightarrow> \<not> isWhiteSpace c"
  by (auto simp: isDigit_def isWhiteSpace_def)

lemma parseFloatStr_digits:
  assumes "ds \<noteq> []" and "list_all isDigit ds"
  shows "parseFloatStr ds = toDouble (of_nat (digitsValue 10 ds))"
proof -
  obtain c cs where ds: "ds = c # cs" using assms(1) by (cases ds) auto
  have c: "isDigit c" using assms(2) ds by simp
  have ws: "trimStart ds = ds" using c ds by (simp add: trimStart_def digit_not_space)
  have sg: "parseSign ds = (False, ds)" using c ds by (auto simp: parseSign_def isDigit_def)
  have inf: "\<not> startsWith ds ''Infinity''" using c ds by (auto simp: startsWith_def isDigit_def)
  have tw: "takeWhile isDigit ds = ds" "dropWhile isDigit ds = []"
    using assms(2) by (simp_all add: list_all_iff)
  have "parseUnsignedDecimal ds = Some (of_nat (digitsValue 10 ds), [])"
    using assms(1) by (simp add: parseUnsignedDecimal_def tw parseExponent_def pow10_def)
  then show ?thesis
    by (simp add: parseFloatStr_def ws parseStrDecimalLiteral_def sg inf)
qed

lemma integer_amount:
  assumes "ds \<noteq> []" and "list_all isDigit ds" and "0 < digitsValue 10 ds" and "digitsValue 10 ds < 2 ^ 53"
  shows "Math_round (parseFloatV (Str ds)) = Fin (of_nat (digitsValue 10 ds))"
proof -
  have "toDouble (of_int (int (digitsValue 10 ds))) = Fin (of_int (int (digitsValue 10 ds)))"
    using assms(3,4) by (intro toDouble_int) (simp_all add: of_nat_less_iff [of _ "2 ^ 53", where ?'a = int, simplified])
  then have "parseFloatV (Str ds) = Fin (of_int (int (digitsValue 10 ds)))"
    using parseFloatStr_digits [OF assms(1,2)] by simp
  then show ?thesis using Math_round_int [of "int (digitsValue 10 ds)"] by simp
qed

theorem integer_amount_witness:
  "list_all isDigit ''2500'' \<and> digitsValue 10 ''2500'' = 2500
   \<and> Math_round (parseFloatV (Str ''2500'')) = Fin 2500"
proof -
  have d: "list_all isDigit ''2500''" by (simp add: isDigit_def)
  have v: "digitsValue 10 ''2500'' = 2500" by (simp add: digitsValue_def digitValue_def)
  from integer_amount [of "''2500''"] d v show ?thesis by simp
qed

text \<open>
  C7 at an amount of one space. The three tests of the validation are false on it
  (\<^verbatim>\<open>isNaN(" ")\<close> is false, \<^verbatim>\<open>parseFloat(" ")\<close> is not a number and is not below 1), the
  push is submitted with an \<^verbatim>\<open>Amount\<close> that is not a number, and the record is stored
  with that amount.
\<close>

lemma validate_blank:
  "validatePaymentRequest blankAmountRequest = Inr \<lparr>errors = [], formattedPhone = ''254712345678''\<rparr>"
  by (simp add: validatePaymentRequest_def blankAmountRequest_def invalidAmount_def isNaN_def ToNumber_def
      parseFloat_def literal_defs formatPhoneNumberOf_def formatPhoneNumber_def
      removeNonDigits_def canonicalPhone_def invalidReference_def getOptional_def)

lemma parseFloat_blank: "parseFloat (Str '' '') = Inr NaN"
  by (simp add: parseFloat_def literal_defs)


theorem blank_amount_pushed:
  "mpesa_initiate (MPESA_CONFIG sandboxEnv) acceptedRun blankAmountRequest [] =
     ((200, acceptedResponse),
      [(''TXN_1700000000000_k3j9x2m1q'', pendingTransaction\<lparr>amount := NaN\<rparr>)],
      [tokenRequest (MPESA_CONFIG sandboxEnv),
       StkPushRequest ''https://sandbox.safaricom.co.ke/mpesa/stkpush/v1/processrequest''
         \<lparr> BusinessShortCode = ''174379'',
           Password = generatePassword (MPESA_CONFIG sandboxEnv) ''20231114221320'',
           Timestamp = ''20231114221320'',
           TransactionType = ''CustomerPayBillOnline'',
           Amount = NaN,
           PartyA = ''254712345678'',
           PartyB = ''174379'',
           PhoneNumber = ''254712345678'',
           CallBackURL = Some ''https://example.com/api/mpesa/callback'',
           AccountReference = Str ''ORDER_1700000000000'',
           TransactionDesc = Str ''Payment for services'' \<rparr>
         (Str ''c9SQxWWhmdVRlyh0zh8gZDTkubVF'')])"
proof -
  have cfg: "businessShortCode (MPESA_CONFIG sandboxEnv) = ''174379''"
    "baseURL (MPESA_CONFIG sandboxEnv) = ''https://sandbox.safaricom.co.ke''"
    "callbackURL (MPESA_CONFIG sandboxEnv) = Some ''https://example.com/api/mpesa/callback''"
    by (simp_all add: MPESA_CONFIG_def sandboxEnv_def)
  have amt: "getProp blankAmountRequest ''amount'' = Inr (Str '' '')"
    by (simp add: blankAmountRequest_def)
  have opt: "getOptional blankAmountRequest ''accountReference'' = Str ''ORDER_1700000000000''"
    "getOptional blankAmountRequest ''transactionDesc'' = Str ''Payment for services''"
    by (simp_all add: blankAmountRequest_def getOptional_def)
  have resp: "getProp (mpesaResponse paidTransaction) ''CheckoutRequestID'' = Inr (Str ''ws_CO_191220191020363925'')"
    "getOptional (mpesaResponse paidTransaction) ''ResponseCode'' = Str ''0''"
    "getOptional (mpesaResponse paidTransaction) ''ResponseDescription'' = Str ''Success. Request accepted for processing''"
    "getOptional (mpesaResponse paidTransaction) ''MerchantRequestID'' = Str ''29115-34620561-1''"
    by (simp_all add: paidTransaction_def getOptional_def)
  have run: "idClock acceptedRun = 1700000000000" "idSuffix acceptedRun = ''k3j9x2m1q''"
    "isoClock acceptedRun = ''2023-11-14T22:13:20.000Z''"
    "getAccessToken (tokenResult acceptedRun) = Inr (Str ''c9SQxWWhmdVRlyh0zh8gZDTkubVF'')"
    "pushResult acceptedRun = Resolved (mpesaResponse paidTransaction)"
    "recordClock acceptedRun = 1700000000500"
    by (simp_all add: acceptedRun_def getAccessToken_def)
  show ?thesis
    unfolding mpesa_initiate_def initiateTry_def amt
    by (simp add: validate_blank cfg parseFloat_blank sample_timestamp digits_id
        generateTransactionId_def opt run resp Let_def Math_round.simps pendingTransaction_def
        transactions_set_def acceptedResponse_def)
       (simp add: paidTransaction_def)
qed

section \<open>The password of the push\<close>

text \<open>
  The encoder agrees with the standard on every list of bytes, and on the test vectors of
  the standard.
\<close>

lemma fromBits_snoc: "fromBits (xs @ [b]) = 2 * fromBits xs + (if b then 1 else 0)"
  by (simp add: fromBits_def)

lemma fromBits_append: "fromBits (xs @ ys) = fromBits xs * 2 ^ length ys + fromBits ys"
proof (induction ys rule: rev_induct)
  case Nil
  show ?case by (simp add: fromBits_def)
next
  case (snoc y ys)
  have "fromBits (xs @ ys @ [y]) = 2 * fromBits (xs @ ys) + (if y then 1 else 0)"
    using fromBits_snoc [of "xs @ ys" y] by simp
  also have "\<dots> = 2 * (fromBits xs * 2 ^ length ys + fromBits ys) + (if y then 1 else 0)"
    by (simp only: snoc.IH)
  also have "\<dots> = fromBits xs * 2 ^ length (ys @ [y]) + fromBits (ys @ [y])"
    by (simp add: fromBits_snoc algebra_simps)
  finally show ?case .
qed

lemma fromBits_zeros: "fromBits (replicate k False) = 0"
  by (induction k) (simp_all add: fromBits_def)

lemma length_bitsOf: "length (bitsOf k n) = k"
  by (simp add: bitsOf_def)

lemma bitsOf_Suc: "bitsOf (Suc k) n = odd (n div 2 ^ k) # bitsOf k n"
  by (simp add: bitsOf_def)

lemma fromBits_bitsOf: "fromBits (bitsOf k n) = n mod 2 ^ k"
proof (induction k)
  case 0
  show ?case by (simp add: bitsOf_def fromBits_def)
next
  case (Suc k)
  have "fromBits (bitsOf (Suc k) n) = fromBits ([odd (n div 2 ^ k)] @ bitsOf k n)"
    by (simp add: bitsOf_Suc)
  also have "\<dots> = fromBits [odd (n div 2 ^ k)] * 2 ^ k + n mod 2 ^ k"
    by (simp only: fromBits_append length_bitsOf Suc.IH)
  also have "fromBits [odd (n div 2 ^ k)] = n div 2 ^ k mod 2"
    by (simp add: fromBits_def odd_iff_mod_2_eq_one)
  also have "n div 2 ^ k mod 2 * 2 ^ k + n mod 2 ^ k = n mod 2 ^ Suc k"
    using mod_mult2_eq [of n "2 ^ k" 2] by (simp add: mult.commute)
  finally show ?case .
qed

lemma bitsOf_add: "bitsOf (j + k) n = bitsOf j (n div 2 ^ k) @ bitsOf k n"
proof (induction j)
  case 0
  show ?case by (simp add: bitsOf_def)
next
  case (Suc j)
  have "bitsOf (Suc j + k) n = odd (n div 2 ^ (j + k)) # bitsOf (j + k) n"
    by (simp add: bitsOf_Suc)
  also have "n div 2 ^ (j + k) = n div 2 ^ k div 2 ^ j"
    by (simp add: power_add div_mult2_eq [symmetric] mult.commute)
  finally show ?case by (simp add: Suc.IH bitsOf_Suc)
qed

lemma groups6_Nil: "groups6 [] = []"
  by (simp add: groups6.simps)

lemma groups6_full: "length g = 6 \<Longrightarrow> groups6 (g @ rest) = g # groups6 rest"
  by (subst groups6.simps) auto

lemma groups6_last:
  assumes "g \<noteq> []" and "length g \<le> 6"
  shows "groups6 g = [g @ replicate (6 - length g) False]"
proof -
  have "0 < length g" using assms by simp
  then have "min (6 - length g) 5 = 6 - length g" by arith
  then show ?thesis using assms by (subst groups6.simps) (simp add: groups6_Nil)
qed

lemma byte_split: "bitsOf 8 n = bitsOf 6 (n div 4) @ bitsOf 2 n"
  using bitsOf_add [of 6 2 n] by simp

lemma byte_split4: "bitsOf 8 n = bitsOf 4 (n div 16) @ bitsOf 4 n"
  using bitsOf_add [of 4 4 n] by simp

lemma byte_split2: "bitsOf 8 n = bitsOf 2 (n div 64) @ bitsOf 6 n"
  using bitsOf_add [of 2 6 n] by simp

text \<open>
  The four characters of three bytes, and the characters of a last group of one or two
  bytes, as the standard cuts them.
\<close>

lemma char1: "base64Alphabet ! fromBits (bitsOf 6 n) = sextet n"
  by (simp add: fromBits_bitsOf sextet_def)

lemma char2:
  assumes "b < 256"
  shows "base64Alphabet ! fromBits (bitsOf 2 a @ bitsOf 4 (b div 16)) = sextet (a mod 4 * 16 + b div 16)"
proof -
  have "b div 16 < 16" using assms by simp
  then have "(a mod 4 * 16 + b div 16) mod 64 = a mod 4 * 16 + b div 16"
    by simp
  then show ?thesis
    using \<open>b div 16 < 16\<close> by (simp add: fromBits_append fromBits_bitsOf length_bitsOf sextet_def)
qed

lemma char3:
  assumes "c < 256"
  shows "base64Alphabet ! fromBits (bitsOf 4 b @ bitsOf 2 (c div 64)) = sextet (b mod 16 * 4 + c div 64)"
proof -
  have "c div 64 < 4" using assms by simp
  then have "(b mod 16 * 4 + c div 64) mod 64 = b mod 16 * 4 + c div 64"
    by simp
  then show ?thesis
    using \<open>c div 64 < 4\<close> by (simp add: fromBits_append fromBits_bitsOf length_bitsOf sextet_def)
qed

lemma sextet_mod: "sextet (n mod 64) = sextet n"
  by (simp add: sextet_def)

lemma char2_last: "base64Alphabet ! fromBits (bitsOf 2 a @ replicate 4 False) = sextet (a mod 4 * 16)"
  by (simp add: fromBits_append fromBits_bitsOf fromBits_zeros sextet_def)

lemma char3_last: "base64Alphabet ! fromBits (bitsOf 4 b @ replicate 2 False) = sextet (b mod 16 * 4)"
  by (simp add: fromBits_append fromBits_bitsOf fromBits_zeros sextet_def)

lemma groups6_four:
  assumes "length g1 = 6" and "length g2 = 6" and "length g3 = 6" and "length g4 = 6"
  shows "groups6 (g1 @ g2 @ g3 @ g4 @ rest) = g1 # g2 # g3 # g4 # groups6 rest"
  using assms by (simp add: groups6_full)

lemma groups6_two_last:
  assumes "length g1 = 6" and "length g2 = 6" and "g3 \<noteq> []" and "length g3 \<le> 6"
  shows "groups6 (g1 @ g2 @ g3) = [g1, g2, g3 @ replicate (6 - length g3) False]"
  using assms by (simp add: groups6_full groups6_last)

lemma groups6_one_last:
  assumes "length g1 = 6" and "g2 \<noteq> []" and "length g2 \<le> 6"
  shows "groups6 (g1 @ g2) = [g1, g2 @ replicate (6 - length g2) False]"
  using assms by (simp add: groups6_full groups6_last)

lemma bitsOf_not_Nil: "0 < k \<Longrightarrow> bitsOf k n \<noteq> []"
  using length_bitsOf [of k n] by auto

lemma standardChars_three:
  assumes "b < 256" and "c < 256"
  shows "standardChars (a # b # c # rest) =
           [sextet (a div 4), sextet (a mod 4 * 16 + b div 16),
            sextet (b mod 16 * 4 + c div 64), sextet (c mod 64)] @ standardChars rest"
proof -
  have c: "concat (map (bitsOf 8) (a # b # c # rest)) =
          bitsOf 6 (a div 4) @ (bitsOf 2 a @ bitsOf 4 (b div 16))
          @ (bitsOf 4 b @ bitsOf 2 (c div 64)) @ bitsOf 6 c @ concat (map (bitsOf 8) rest)"
    by (simp add: byte_split [of a] byte_split4 [of b] byte_split2 [of c])
  have g: "groups6 (bitsOf 6 (a div 4) @ (bitsOf 2 a @ bitsOf 4 (b div 16))
          @ (bitsOf 4 b @ bitsOf 2 (c div 64)) @ bitsOf 6 c @ concat (map (bitsOf 8) rest)) =
        bitsOf 6 (a div 4) # (bitsOf 2 a @ bitsOf 4 (b div 16))
          # (bitsOf 4 b @ bitsOf 2 (c div 64)) # bitsOf 6 c # groups6 (concat (map (bitsOf 8) rest))"
    by (rule groups6_four) (simp_all add: length_bitsOf)
  show ?thesis
    unfolding standardChars_def c g
    by (simp only: list.map char1 char2 [OF assms(1)] char3 [OF assms(2)] sextet_mod append.simps)
qed

lemma standardChars_two:
  assumes "b < 256"
  shows "standardChars [a, b] =
           [sextet (a div 4), sextet (a mod 4 * 16 + b div 16), sextet (b mod 16 * 4)]"
proof -
  have c: "concat (map (bitsOf 8) [a, b]) =
          bitsOf 6 (a div 4) @ (bitsOf 2 a @ bitsOf 4 (b div 16)) @ bitsOf 4 b"
    by (simp add: byte_split [of a] byte_split4 [of b])
  have g: "groups6 (bitsOf 6 (a div 4) @ (bitsOf 2 a @ bitsOf 4 (b div 16)) @ bitsOf 4 b) =
          [bitsOf 6 (a div 4), bitsOf 2 a @ bitsOf 4 (b div 16),
           bitsOf 4 b @ replicate (6 - length (bitsOf 4 b)) False]"
    by (rule groups6_two_last) (simp_all add: length_bitsOf bitsOf_not_Nil)
  have l: "6 - length (bitsOf 4 b) = 2" by (simp add: length_bitsOf)
  show ?thesis
    unfolding standardChars_def c g l
    by (simp only: list.map char1 char2 [OF assms] char3_last)
qed

lemma standardChars_one:
  "standardChars [a] = [sextet (a div 4), sextet (a mod 4 * 16)]"
proof -
  have c: "concat (map (bitsOf 8) [a]) = bitsOf 6 (a div 4) @ bitsOf 2 a"
    by (simp add: byte_split [of a])
  have g: "groups6 (bitsOf 6 (a div 4) @ bitsOf 2 a) =
          [bitsOf 6 (a div 4), bitsOf 2 a @ replicate (6 - length (bitsOf 2 a)) False]"
    by (rule groups6_one_last) (simp_all add: length_bitsOf bitsOf_not_Nil)
  have l: "6 - length (bitsOf 2 a) = 4" by (simp add: length_bitsOf)
  show ?thesis
    unfolding standardChars_def c g l
    by (simp only: list.map char1 char2_last)
qed

lemma standardChars_none: "standardChars [] = []"
  by (simp add: standardChars_def groups6_Nil)

lemma rfc4648_standardChars:
  "rfc4648_base64 bytes =
     standardChars bytes @ replicate ((4 - length (standardChars bytes) mod 4) mod 4) CHR ''=''"
  by (simp add: rfc4648_base64_def standardChars_def Let_def)

lemma base64_standard:
  "list_all (\<lambda>b. b < 256) bytes \<Longrightarrow> base64 bytes = rfc4648_base64 bytes"
proof (induction bytes rule: base64.induct)
  case 1
  show ?case by (simp add: rfc4648_standardChars standardChars_none)
next
  case (2 a)
  show ?case by (simp add: rfc4648_standardChars standardChars_one numeral_2_eq_2)
next
  case (3 a b)
  then have "b < 256" by simp
  then show ?case by (simp add: rfc4648_standardChars standardChars_two)
next
  case (4 a b c rest)
  then have bc: "b < 256" "c < 256" and r: "list_all (\<lambda>b. b < 256) rest" by simp_all
  have "base64 rest = rfc4648_base64 rest" using "4.IH" r by simp
  then show ?case
    by (simp add: rfc4648_standardChars standardChars_three [OF bc])
qed

lemma utf8_bytes: "list_all (\<lambda>b. b < 256) (utf8 s)"
proof (induction s)
  case Nil
  show ?case by (simp add: utf8_def)
next
  case (Cons c s)
  have "of_char c < (256 :: nat)" by simp
  then have "(192 :: nat) + of_char c div 64 < 256" by arith
  moreover have "(128 :: nat) + of_char c mod 64 < 256" by arith
  ultimately show ?case using Cons by (simp add: utf8_def Let_def)
qed

lemma rfc_vectors:
  "toBase64 '''' = ''''" "toBase64 ''f'' = ''Zg==''" "toBase64 ''fo'' = ''Zm8=''"
  "toBase64 ''foo'' = ''Zm9v''" "toBase64 ''foob'' = ''Zm9vYg==''"
  "toBase64 ''fooba'' = ''Zm9vYmE=''" "toBase64 ''foobar'' = ''Zm9vYmFy''"
  by (simp_all add: toBase64_def utf8_def sextet_def base64Alphabet_def)

text \<open>
  C8. With a passkey configured, \<^verbatim>\<open>generatePassword(timestamp)\<close> is the base64 encoding,
  as the standard defines it, of the business short code, the passkey and the timestamp,
  concatenated in that order; for every timestamp, the fourteen-digit ones included.
\<close>

theorem generatePassword_base64:
  "MPESA_PASSKEY env = Some pk \<Longrightarrow>
     generatePassword (MPESA_CONFIG env) timestampNow =
       rfc4648_base64 (utf8 (businessShortCode (MPESA_CONFIG env) @ pk @ timestampNow))"
proof -
  assume k: "MPESA_PASSKEY env = Some pk"
  have "generatePassword (MPESA_CONFIG env) timestampNow =
          base64 (utf8 (businessShortCode (MPESA_CONFIG env) @ pk @ timestampNow))"
    using k by (simp add: generatePassword_def toBase64_def template_def MPESA_CONFIG_def)
  also have "\<dots> = rfc4648_base64 (utf8 (businessShortCode (MPESA_CONFIG env) @ pk @ timestampNow))"
    by (rule base64_standard) (rule utf8_bytes)
  finally show ?thesis .
qed

theorem generatePassword_base64_witness:
  "MPESA_PASSKEY sandboxEnv = Some ''bfb279f9aa9bdbcf158e97dd71a467cd2e0c893059b10f78e6b72ada1ed2c919''
   \<and> businessShortCode (MPESA_CONFIG sandboxEnv) = ''174379''
   \<and> length ''20231114221320'' = 14 \<and> list_all isDigit ''20231114221320''
   \<and> rfc4648_base64 (utf8 (''174379''
        @ ''bfb279f9aa9bdbcf158e97dd71a467cd2e0c893059b10f78e6b72ada1ed2c919''
        @ ''20231114221320'')) =
      ''MTc0Mzc5YmZiMjc5ZjlhYTliZGJjZjE1OGU5N2RkNzFhNDY3Y2QyZTBjODkzMDU5YjEwZjc4ZTZiNzJhZGExZWQyYzkxOTIwMjMxMTE0MjIxMzIw''"
proof -
  have k: "MPESA_PASSKEY sandboxEnv = Some ''bfb279f9aa9bdbcf158e97dd71a467cd2e0c893059b10f78e6b72ada1ed2c919''"
    by (simp add: sandboxEnv_def)
  have c: "businessShortCode (MPESA_CONFIG sandboxEnv) = ''174379''"
    by (simp add: MPESA_CONFIG_def sandboxEnv_def)
  from generatePassword_base64 [OF k, of "''20231114221320''"] sandbox_password k c
  show ?thesis by (simp add: isDigit_def)
qed


end
